theory Spec2Isabelle
  imports Complex_Main "HOL-Library.AList"
begin

text \<open>
  The caching and aggregation core of the portfolio dashboard, as functions of
  Isabelle/HOL: the parsing of the vendor's answers (\<open>bseIndia\<close>), the three cache stores
  (\<open>scripcodeCache\<close>, \<open>priceCache\<close>, \<open>fundamentalsCache\<close>), the batched fetchers, and
  the aggregator (\<open>portfolioData\<close>).  Every function keeps the name it has in the source.
  What a call reads from outside (the files, the vendor, the clock) is an argument, and
  what it writes is part of its result.
\<close>

section \<open>JavaScript values used by the dashboard\<close>

text \<open>
  A JavaScript \<open>number\<close> is embedded as an exact rational, or one of the three special
  values of IEEE arithmetic.  Rounding to the nearest double is not part of the model:
  \<open>Num\<close> carries the exact value.  Values read from JSON documents (the static portfolio)
  are always finite.
\<close>

datatype number = Num rat | PosInf | NegInf | NaN | Null

text \<open>\<open>a * b\<close>, \<open>a - b\<close> and \<open>a / b\<close> with a finite right operand, as the aggregator uses them.\<close>

fun times :: "number \<Rightarrow> rat \<Rightarrow> number" where
  "times (Num a) b = Num (a * b)"
| "times PosInf b = (if 0 < b then PosInf else if b < 0 then NegInf else NaN)"
| "times NegInf b = (if 0 < b then NegInf else if b < 0 then PosInf else NaN)"
| "times NaN b = NaN"
| "times Null b = Num 0"

fun minus :: "number \<Rightarrow> rat \<Rightarrow> number" where
  "minus (Num a) b = Num (a - b)"
| "minus PosInf b = PosInf"
| "minus NegInf b = NegInf"
| "minus NaN b = NaN"
| "minus Null b = Num (- b)"

fun divide :: "number \<Rightarrow> rat \<Rightarrow> number" where
  "divide (Num a) b =
     (if b \<noteq> 0 then Num (a / b)
      else if 0 < a then PosInf else if a < 0 then NegInf else NaN)"
| "divide PosInf b = (if 0 \<le> b then PosInf else NegInf)"
| "divide NegInf b = (if 0 \<le> b then NegInf else PosInf)"
| "divide NaN b = NaN"
| "divide Null b = (if b \<noteq> 0 then Num 0 else NaN)"

text \<open>\<open>x >= 0\<close>: false for \<open>NaN\<close>.\<close>

fun geZero :: "number \<Rightarrow> bool" where
  "geZero (Num a) = (0 \<le> a)"
| "geZero PosInf = True"
| "geZero NegInf = False"
| "geZero NaN = False"
| "geZero Null = True"

subsection \<open>Strings\<close>

definition isWhiteSpace :: "char \<Rightarrow> bool" where
  "isWhiteSpace c = (c \<in> set [CHR 0x09, CHR 0x0A, CHR 0x0B, CHR 0x0C, CHR 0x0D, CHR 0x20])"

definition isDigit :: "char \<Rightarrow> bool" where
  "isDigit c = (c \<in> set ''0123456789'')"

text \<open>\<open>String.prototype.trim\<close> on ASCII text.\<close>

definition trim :: "string \<Rightarrow> string" where
  "trim s = rev (dropWhile isWhiteSpace (rev (dropWhile isWhiteSpace s)))"

text \<open>\<open>s.replace(c, '')\<close> for a one-character pattern: the first occurrence is removed.\<close>

definition replaceFirst :: "char \<Rightarrow> string \<Rightarrow> string" where
  "replaceFirst c s = remove1 c s"

text \<open>
  A string-typed field of a vendor answer may be missing (\<open>undefined\<close> or \<open>null\<close>): it is
  a \<open>string option\<close>.  \<open>a || b\<close> keeps \<open>a\<close> when it is truthy, that is present and not empty.
\<close>

definition truthy :: "string option \<Rightarrow> bool" where
  "truthy a = (case a of None \<Rightarrow> False | Some s \<Rightarrow> s \<noteq> [])"

definition orElse :: "string option \<Rightarrow> string option \<Rightarrow> string option" where
  "orElse a b = (if truthy a then a else b)"

definition orDefault :: "string option \<Rightarrow> string \<Rightarrow> string" where
  "orDefault a d = (case a of None \<Rightarrow> d | Some s \<Rightarrow> if s \<noteq> [] then s else d)"

subsection \<open>parseFloat\<close>

text \<open>
  Modelled from the ECMAScript definition of \<open>parseFloat\<close>: leading white space is skipped,
  the longest prefix that is a decimal literal (sign, digits, fraction, exponent, or
  \<open>Infinity\<close>) is the value, and a text with no such prefix gives \<open>NaN\<close>.
\<close>

definition digitValue :: "char \<Rightarrow> nat" where
  "digitValue c = of_char c - 48"

definition digitsValue :: "string \<Rightarrow> nat" where
  "digitsValue ds = fold (\<lambda>c n. 10 * n + digitValue c) ds 0"

definition splitSign :: "string \<Rightarrow> bool \<times> string" where
  "splitSign t =
     (case t of
        [] \<Rightarrow> (False, t)
      | c # r \<Rightarrow> if c = CHR ''-'' then (True, r) else if c = CHR ''+'' then (False, r) else (False, t))"

text \<open>The exponent part \<open>e\<close>, \<open>E\<close> with an optional sign and at least one digit; 0 without one.\<close>

definition exponentPart :: "string \<Rightarrow> int" where
  "exponentPart r =
     (case r of
        [] \<Rightarrow> 0
      | c # r' \<Rightarrow>
          if c = CHR ''e'' \<or> c = CHR ''E'' then
            (let (neg, ds) = splitSign r'; e = takeWhile isDigit ds
             in if e = [] then 0 else if neg then - int (digitsValue e) else int (digitsValue e))
          else 0)"

definition scale :: "rat \<Rightarrow> int \<Rightarrow> rat" where
  "scale m e = (if 0 \<le> e then m * 10 ^ nat e else m / 10 ^ nat (- e))"

definition parseFloat :: "string \<Rightarrow> number" where
  "parseFloat s =
     (let (neg, u) = splitSign (dropWhile isWhiteSpace s) in
      if take 8 u = ''Infinity'' then (if neg then NegInf else PosInf)
      else
        let ip = takeWhile isDigit u;
            r1 = dropWhile isDigit u;
            (fp, r2) =
              (case r1 of
                 [] \<Rightarrow> ([], r1)
               | c # r \<Rightarrow>
                   if c = CHR ''.'' then (takeWhile isDigit r, dropWhile isDigit r) else ([], r1))
        in if ip = [] \<and> fp = [] then NaN
           else
             let m = of_nat (digitsValue ip) + of_nat (digitsValue fp) / 10 ^ length fp;
                 v = scale m (exponentPart r2)
             in Num (if neg then - v else v))"

section \<open>Fetchers: mapping the vendor's answers (bseIndia)\<close>

subsection \<open>Price answer\<close>

text \<open>
  The parts of \<open>BSEResponse\<close> that \<open>mapBSEResponseToStockData\<close> reads.  \<open>HeaderLTP\<close> is
  the field \<open>LTP\<close> of \<open>Header\<close>, and \<open>openPrice\<close> the field \<open>open\<close> of
  \<open>BSEStockData\<close>.
\<close>

record CurrRate =
  LTP :: "string option"
  Chg :: "string option"
  PcChg :: "string option"

record Cmpname =
  FullN :: "string option"
  ShortN :: "string option"

record Header =
  PrevClose :: "string option"
  Open :: "string option"
  High :: "string option"
  Low :: "string option"
  HeaderLTP :: "string option"
  Ason :: "string option"

record BSEResponse =
  CurrRate :: "CurrRate option"
  Cmpname :: "Cmpname option"
  Header :: "Header option"

record BSEStockData =
  scripcode :: string
  companyName :: string
  currentPrice :: number
  previousClose :: number
  openPrice :: number
  high :: number
  low :: number
  change :: number
  changePercent :: number
  lastUpdated :: string

text \<open>\<open>obj?.field\<close>: absent when the object is.\<close>

definition opt :: "'a option \<Rightarrow> ('a \<Rightarrow> 'b option) \<Rightarrow> 'b option" where
  "opt obj field = (case obj of None \<Rightarrow> None | Some x \<Rightarrow> field x)"

text \<open>
  \<open>isoNow\<close> is the value of \<open>new Date().toISOString()\<close> at the time of the call.
\<close>

definition mapBSEResponseToStockData :: "string \<Rightarrow> string \<Rightarrow> BSEResponse \<Rightarrow> BSEStockData" where
  "mapBSEResponseToStockData isoNow sc d =
     (let ltp = parseFloat (orDefault (orElse (opt (CurrRate d) LTP) (opt (Header d) HeaderLTP)) ''0'');
          prevClose = parseFloat (orDefault (opt (Header d) PrevClose) ''0'');
          chg = parseFloat (orDefault (map_option (replaceFirst CHR ''+'') (opt (CurrRate d) Chg)) ''0'');
          pc = parseFloat (orDefault
                 (map_option (replaceFirst CHR ''%'')
                    (map_option (replaceFirst CHR ''+'') (opt (CurrRate d) PcChg))) ''0'')
      in \<lparr> scripcode = sc,
           companyName = orDefault (orElse (opt (Cmpname d) FullN) (opt (Cmpname d) ShortN)) '''',
           currentPrice = ltp,
           previousClose = prevClose,
           openPrice = parseFloat (orDefault (opt (Header d) Open) ''0''),
           high = parseFloat (orDefault (opt (Header d) High) ''0''),
           low = parseFloat (orDefault (opt (Header d) Low) ''0''),
           change = chg,
           changePercent = pc,
           lastUpdated = orDefault (opt (Header d) Ason) isoNow \<rparr>)"

subsection \<open>Fundamentals answer\<close>

record BSEFundamentalsResponse =
  SecurityId :: "string option"
  FaceVal :: "string option"
  ISIN :: "string option"
  Industry :: "string option"
  Group :: "string option"
  Index :: "string option"
  EPS :: "string option"
  CEPS :: "string option"
  PE :: "string option"
  OPM :: "string option"
  NPM :: "string option"
  PB :: "string option"
  ROE :: "string option"
  Sector :: "string option"
  IndustryNew :: "string option"
  ISubGroup :: "string option"

record BSEFundamentalsData =
  scripcode :: string
  securityId :: string
  isin :: string
  sector :: string
  industry :: string
  faceValue :: number
  eps :: "number option"
  ceps :: "number option"
  pe :: "number option"
  pb :: "number option"
  roe :: "number option"
  opm :: "number option"
  npm :: "number option"
  group :: string
  index :: string

text \<open>The local \<open>parseNumber\<close> of \<open>mapBSEFundamentalsResponse\<close>; \<open>None\<close> is \<open>null\<close>.\<close>

definition parseNumber :: "string option \<Rightarrow> number option" where
  "parseNumber value =
     (case value of
        None \<Rightarrow> None
      | Some v \<Rightarrow>
          if v = [] \<or> v = ''-'' \<or> trim v = [] then None
          else (let parsed = parseFloat v in if parsed = NaN then None else Some parsed))"

text \<open>\<open>x || 0\<close> for \<open>x : number | null\<close>: \<open>null\<close>, \<open>0\<close> and \<open>NaN\<close> are falsy.\<close>

definition orZero :: "number option \<Rightarrow> number" where
  "orZero x =
     (case x of
        None \<Rightarrow> Num 0
      | Some n \<Rightarrow> if n = NaN \<or> n = Num 0 \<or> n = Null then Num 0 else n)"

definition mapBSEFundamentalsResponse :: "string \<Rightarrow> BSEFundamentalsResponse \<Rightarrow> BSEFundamentalsData" where
  "mapBSEFundamentalsResponse sc d =
     \<lparr> scripcode = sc,
       securityId = orDefault (SecurityId d) '''',
       isin = orDefault (ISIN d) '''',
       sector = orDefault (orElse (Sector d) (IndustryNew d)) '''',
       industry = orDefault (orElse (Industry d) (ISubGroup d)) '''',
       faceValue = orZero (parseNumber (FaceVal d)),
       eps = parseNumber (EPS d),
       ceps = parseNumber (CEPS d),
       pe = parseNumber (PE d),
       pb = parseNumber (PB d),
       roe = parseNumber (ROE d),
       opm = parseNumber (OPM d),
       npm = parseNumber (NPM d),
       group = orDefault (Group d) '''',
       index = orDefault (Index d) '''' \<rparr>"

section \<open>Cache layer\<close>

text \<open>
  An error thrown by the runtime (a rejected promise, a thrown exception) is a value: a
  \<open>try\<close> block is a function into \<open>exn + 'a\<close>, and its \<open>catch\<close> handler is the case
  analysis on \<open>Inl\<close>.
\<close>

datatype exn = IOError | SyntaxError | NetworkError | HttpError

text \<open>
  A cache file is missing (or unreadable), or holds a text.  The text is either the JSON
  text of a document of the store's interface type, or a text that \<open>JSON.parse\<close> rejects
  (the empty and the blank text among them).  A document is taken at its interface
  type, as the casts of the source take it.
\<close>

datatype 'd content = Text string | Json 'd

type_synonym 'd cacheFile = "'d content option"

definition readFile :: "'d cacheFile \<Rightarrow> exn + 'd content" where
  "readFile f = (case f of None \<Rightarrow> Inl IOError | Some c \<Rightarrow> Inr c)"

text \<open>\<open>!cacheContent || cacheContent.trim() === ''\<close>\<close>

definition isBlank :: "'d content \<Rightarrow> bool" where
  "isBlank c = (case c of Text s \<Rightarrow> s = [] \<or> trim s = [] | Json d \<Rightarrow> False)"

definition JSON_parse :: "'d content \<Rightarrow> exn + 'd" where
  "JSON_parse c = (case c of Text s \<Rightarrow> Inl SyntaxError | Json d \<Rightarrow> Inr d)"

subsection \<open>The JavaScript Map, keyed by strings\<close>

text \<open>
  A \<open>Map\<close> is the list of its entries in insertion order; \<open>set\<close> replaces the value of
  a key that is present and appends a new key.  A JSON object is the list of its entries
  in the same way.
\<close>

type_synonym 'v jsMap = "(string \<times> 'v) list"

definition mapGet :: "'v jsMap \<Rightarrow> string \<Rightarrow> 'v option" where
  "mapGet m k = map_of m k"

definition mapHas :: "'v jsMap \<Rightarrow> string \<Rightarrow> bool" where
  "mapHas m k = (map_of m k \<noteq> None)"

definition mapSet :: "string \<Rightarrow> 'v \<Rightarrow> 'v jsMap \<Rightarrow> 'v jsMap" where
  "mapSet k v m = AList.update k v m"

text \<open>\<open>new Map(entries)\<close>, and \<open>entries.forEach(([k, v]) => m.set(k, v))\<close> on a map \<open>m\<close>.\<close>

definition setAll :: "(string \<times> 'v) list \<Rightarrow> 'v jsMap \<Rightarrow> 'v jsMap" where
  "setAll entries m = fold (\<lambda>(k, v) r. mapSet k v r) entries m"

definition newMap :: "(string \<times> 'v) list \<Rightarrow> 'v jsMap" where
  "newMap entries = setAll entries []"

subsection \<open>Objects and JSON\<close>

text \<open>
  An object is the list of its entries in the order in which they were created.  It
  lists its own keys in another order: first the keys that are array indices (the
  decimal text, without leading zeros, of an integer below \<open>2^32 - 1\<close>) in ascending
  numeric order, then the other keys in the order of their creation.  That is the order
  of \<open>Object.entries\<close> and of the text that \<open>JSON.stringify\<close> writes.
\<close>

definition indexValue :: "string \<Rightarrow> int" where
  "indexValue k = fold (\<lambda>c n. 10 * n + int (digitValue c)) k 0"

definition isArrayIndex :: "string \<Rightarrow> bool" where
  "isArrayIndex k =
     (k \<noteq> [] \<and> list_all isDigit k \<and> (k = ''0'' \<or> hd k \<noteq> CHR ''0'') \<and> indexValue k < 2 ^ 32 - 1)"

definition ownKeyOrder :: "('a \<Rightarrow> string) \<Rightarrow> 'a list \<Rightarrow> 'a list" where
  "ownKeyOrder key xs =
     sort_key (\<lambda>x. indexValue (key x)) (filter (\<lambda>x. isArrayIndex (key x)) xs)
     @ filter (\<lambda>x. \<not> isArrayIndex (key x)) xs"

definition Object_entries :: "(string \<times> 'v) list \<Rightarrow> (string \<times> 'v) list" where
  "Object_entries obj = ownKeyOrder fst obj"

text \<open>
  \<open>JSON.stringify\<close> writes \<open>null\<close> for a number that is not finite, and \<open>JSON.parse\<close>
  reads \<open>null\<close> back: \<open>JSON_number\<close> is what a number is after the round trip.
\<close>

definition JSON_number :: "number \<Rightarrow> number" where
  "JSON_number x = (case x of Num r \<Rightarrow> Num r | _ \<Rightarrow> Null)"

definition JSON_BSEStockData :: "BSEStockData \<Rightarrow> BSEStockData" where
  "JSON_BSEStockData d =
     d \<lparr> currentPrice := JSON_number (currentPrice d),
         previousClose := JSON_number (previousClose d),
         openPrice := JSON_number (openPrice d),
         high := JSON_number (high d),
         low := JSON_number (low d),
         change := JSON_number (change d),
         changePercent := JSON_number (changePercent d) \<rparr>"

subsection \<open>Scripcode store (scripcodeCache): no expiry\<close>

type_synonym ScripcodeMapping = "(string \<times> string) list"

definition loadScripcodeCache_try :: "ScripcodeMapping cacheFile \<Rightarrow> exn + string jsMap" where
  "loadScripcodeCache_try f =
     (case readFile f of
        Inl e \<Rightarrow> Inl e
      | Inr cacheContent \<Rightarrow>
          if isBlank cacheContent then Inr []
          else (case JSON_parse cacheContent of
                  Inl e \<Rightarrow> Inl e
                | Inr cached \<Rightarrow> Inr (newMap (Object_entries cached))))"

definition loadScripcodeCache :: "ScripcodeMapping cacheFile \<Rightarrow> string jsMap" where
  "loadScripcodeCache f = (case loadScripcodeCache_try f of Inl e \<Rightarrow> [] | Inr m \<Rightarrow> m)"

text \<open>
  \<open>writable\<close> says whether \<open>mkdir\<close> and \<open>writeFile\<close> succeed; when they throw, the error
  is logged and the file stays as it was.
\<close>

definition saveScripcodeCache :: "bool \<Rightarrow> string jsMap \<Rightarrow> ScripcodeMapping cacheFile \<Rightarrow> ScripcodeMapping cacheFile" where
  "saveScripcodeCache writable mappings f =
     (if writable then Some (Json (Object_entries (setAll mappings []))) else f)"

subsection \<open>Price store (priceCache): one timestamp per entry\<close>

record CachedPrice =
  timestamp :: int
  data :: BSEStockData

type_synonym PriceCache = "(string \<times> CachedPrice) list"

definition PRICE_CACHE_DURATION_MS :: int where
  "PRICE_CACHE_DURATION_MS = 2 * 60 * 1000"

text \<open>\<open>now\<close> is the value of \<open>Date.now()\<close> read inside the function.\<close>

definition isPriceCacheValid :: "int \<Rightarrow> int \<Rightarrow> bool" where
  "isPriceCacheValid now ts = (now - ts < PRICE_CACHE_DURATION_MS)"

text \<open>
  \<open>isPriceCacheValid\<close> reads the clock once for every entry: \<open>clock i\<close> is the reading
  for the entry at position \<open>i\<close> of \<open>Object.entries(cached)\<close>.
\<close>

definition loadPriceCache_try :: "(nat \<Rightarrow> int) \<Rightarrow> PriceCache cacheFile \<Rightarrow> exn + BSEStockData jsMap" where
  "loadPriceCache_try clock f =
     (case readFile f of
        Inl e \<Rightarrow> Inl e
      | Inr cacheContent \<Rightarrow>
          if isBlank cacheContent then Inr []
          else (case JSON_parse cacheContent of
                  Inl e \<Rightarrow> Inl e
                | Inr cached \<Rightarrow>
                    Inr (fold (\<lambda>(i, (sc, cachedPrice)) result.
                                 if isPriceCacheValid (clock i) (CachedPrice.timestamp cachedPrice)
                                 then mapSet sc (CachedPrice.data cachedPrice) result
                                 else result)
                           (enumerate 0 (Object_entries cached)) [])))"

definition loadPriceCache :: "(nat \<Rightarrow> int) \<Rightarrow> PriceCache cacheFile \<Rightarrow> BSEStockData jsMap" where
  "loadPriceCache clock f = (case loadPriceCache_try clock f of Inl e \<Rightarrow> [] | Inr m \<Rightarrow> m)"

text \<open>
  The document that the text \<open>JSON.stringify(cacheObject)\<close> holds: the entries in the
  order of the keys of the object, and the numbers of the payload through JSON.  (A
  timestamp is a reading of the clock, an integer.)
\<close>

definition JSON_stringify :: "PriceCache \<Rightarrow> PriceCache" where
  "JSON_stringify cacheObject =
     map (\<lambda>(sc, cachedPrice).
            (sc, cachedPrice \<lparr> CachedPrice.data := JSON_BSEStockData (CachedPrice.data cachedPrice) \<rparr>))
       (Object_entries cacheObject)"

text \<open>
  \<open>savePriceCache\<close> stamps every entry with its own reading of the clock (\<open>clock i\<close> for
  the entry at position \<open>i\<close> of the map, the order of \<open>prices.forEach\<close>) and replaces
  the document.
\<close>

definition savePriceCache :: "bool \<Rightarrow> (nat \<Rightarrow> int) \<Rightarrow> BSEStockData jsMap \<Rightarrow> PriceCache cacheFile \<Rightarrow> PriceCache cacheFile" where
  "savePriceCache writable clock prices f =
     (if writable then
        Some (Json (JSON_stringify
                      (fold (\<lambda>(i, (sc, d)) cacheObject.
                               mapSet sc \<lparr> CachedPrice.timestamp = clock i, CachedPrice.data = d \<rparr>
                                 cacheObject)
                         (enumerate 0 prices) [])))
      else f)"

definition savePriceToCache ::
  "bool \<Rightarrow> (nat \<Rightarrow> int) \<Rightarrow> (nat \<Rightarrow> int) \<Rightarrow> string \<Rightarrow> BSEStockData \<Rightarrow> PriceCache cacheFile \<Rightarrow> PriceCache cacheFile" where
  "savePriceToCache writable loadClock saveClock sc d f =
     savePriceCache writable saveClock (mapSet sc d (loadPriceCache loadClock f)) f"

subsection \<open>Fundamentals store (fundamentalsCache): one timestamp per document\<close>

text \<open>
  \<open>data\<close> is an array of pairs (what \<open>saveFundamentalsCache\<close> writes) or an object; the
  loader also tests that the field is there.
\<close>

datatype fundamentalsEntries =
  Pairs "(string \<times> BSEFundamentalsData) list"
| Object "(string \<times> BSEFundamentalsData) list"

record CachedFundamentals =
  timestamp :: int
  data :: "fundamentalsEntries option"

definition CACHE_DURATION_MS :: int where
  "CACHE_DURATION_MS = 24 * 60 * 60 * 1000"

definition isCacheValid :: "int \<Rightarrow> int \<Rightarrow> bool" where
  "isCacheValid now ts = (now - ts < CACHE_DURATION_MS)"

text \<open>\<open>None\<close> is the \<open>null\<close> the loader returns; \<open>!cached.timestamp\<close> holds for 0.\<close>

definition loadFundamentalsCache_try ::
  "int \<Rightarrow> CachedFundamentals cacheFile \<Rightarrow> exn + BSEFundamentalsData jsMap option" where
  "loadFundamentalsCache_try now f =
     (case readFile f of
        Inl e \<Rightarrow> Inl e
      | Inr cacheContent \<Rightarrow>
          if isBlank cacheContent then Inr None
          else (case JSON_parse cacheContent of
                  Inl e \<Rightarrow> Inl e
                | Inr cached \<Rightarrow>
                    if timestamp cached = 0 \<or> data cached = None then Inr None
                    else if isCacheValid now (timestamp cached) then
                      Inr (Some (case data cached of
                                   Some (Pairs items) \<Rightarrow> setAll items []
                                 | Some (Object entries) \<Rightarrow> setAll (Object_entries entries) []
                                 | None \<Rightarrow> []))
                    else Inr None))"

definition loadFundamentalsCache :: "int \<Rightarrow> CachedFundamentals cacheFile \<Rightarrow> BSEFundamentalsData jsMap option" where
  "loadFundamentalsCache now f =
     (case loadFundamentalsCache_try now f of Inl e \<Rightarrow> None | Inr r \<Rightarrow> r)"

definition saveFundamentalsCache ::
  "bool \<Rightarrow> int \<Rightarrow> BSEFundamentalsData jsMap \<Rightarrow> CachedFundamentals cacheFile \<Rightarrow> CachedFundamentals cacheFile" where
  "saveFundamentalsCache writable now m f =
     (if writable then Some (Json \<lparr> timestamp = now, data = Some (Pairs m) \<rparr>) else f)"

section \<open>Fetchers: requests to the vendor (bseIndia)\<close>

text \<open>
  What a GET request comes to: the request fails (\<open>fetch\<close> rejects), the status is not
  in the 2xx range (\<open>!response.ok\<close>), the body is not JSON (\<open>response.json()\<close> rejects),
  or the body is a document.
\<close>

datatype 'a response = Rejected | NotOk | NotJson | Body 'a

text \<open>
  The vendor, as one aggregation call sees it.  \<open>searchResult\<close> is the value of
  \<open>searchBSEScripcode(symbol)\<close>: the identifier scraped from the search page, or \<open>null\<close>
  (that function catches every error of its own).
\<close>

record Vendor =
  searchResult :: "string \<Rightarrow> string option"
  priceAnswer :: "string \<Rightarrow> BSEResponse response"
  fundamentalsAnswer :: "string \<Rightarrow> BSEFundamentalsResponse response"
  isoNow :: string

definition fetchBSEData_try :: "Vendor \<Rightarrow> string \<Rightarrow> exn + BSEStockData" where
  "fetchBSEData_try vendor sc =
     (case priceAnswer vendor sc of
        Rejected \<Rightarrow> Inl NetworkError
      | NotOk \<Rightarrow> Inl HttpError
      | NotJson \<Rightarrow> Inl SyntaxError
      | Body d \<Rightarrow> Inr (mapBSEResponseToStockData (isoNow vendor) sc d))"

definition fetchBSEData :: "Vendor \<Rightarrow> string \<Rightarrow> BSEStockData option" where
  "fetchBSEData vendor sc =
     (case fetchBSEData_try vendor sc of Inl e \<Rightarrow> None | Inr d \<Rightarrow> Some d)"

definition fetchBSEFundamentals_try :: "Vendor \<Rightarrow> string \<Rightarrow> exn + BSEFundamentalsData" where
  "fetchBSEFundamentals_try vendor sc =
     (case fundamentalsAnswer vendor sc of
        Rejected \<Rightarrow> Inl NetworkError
      | NotOk \<Rightarrow> Inl HttpError
      | NotJson \<Rightarrow> Inl SyntaxError
      | Body d \<Rightarrow> Inr (mapBSEFundamentalsResponse sc d))"

definition fetchBSEFundamentals :: "Vendor \<Rightarrow> string \<Rightarrow> BSEFundamentalsData option" where
  "fetchBSEFundamentals vendor sc =
     (case fetchBSEFundamentals_try vendor sc of Inl e \<Rightarrow> None | Inr d \<Rightarrow> Some d)"

text \<open>\<open>isBSEScripcode\<close>: the test \<open>/^\d+$/\<close>.\<close>

definition isBSEScripcode :: "string \<Rightarrow> bool" where
  "isBSEScripcode symbol = (symbol \<noteq> [] \<and> list_all isDigit symbol)"

subsection \<open>Batches\<close>

text \<open>
  \<open>fetchMultipleBSEData\<close> and \<open>fetchMultipleBSEFundamentals\<close> are the same loop around
  two fetchers.  The loop is embedded once, over a fetcher that may even throw.  What the
  loop does to the outside is a list of events, threaded through the code in the order
  in which the code runs: a call of the fetcher sends its request (\<open>Request\<close>),
  \<open>await Promise.all\<close> resumes when the answers to all the requests of its promises are
  in (\<open>Responses\<close>), and \<open>setTimeout\<close> pauses (\<open>Delay\<close>).  The order in which the
  answers of one batch come in is not recorded: the results do not depend on it.
\<close>

datatype event = Request string | Responses "string list" | Delay nat

text \<open>A promise: the request it waits for, and what it settles to (\<open>Inl\<close> when it rejects).\<close>

datatype 'a promise = Promise string "exn + 'a"

definition BATCH_SIZE :: nat where
  "BATCH_SIZE = 10"

definition BATCH_DELAY_MS :: nat where
  "BATCH_DELAY_MS = 1000"

text \<open>
  A call of the fetcher (an \<open>async\<close> function) runs up to its first \<open>await\<close>, the one on
  \<open>fetch\<close>: the request is out when the call returns its promise.
\<close>

definition callFetcher ::
  "(string \<Rightarrow> exn + 'a option) \<Rightarrow> string \<Rightarrow> event list \<Rightarrow> 'a option promise \<times> event list" where
  "callFetcher fetchOne sc net = (Promise sc (fetchOne sc), net @ [Request sc])"

text \<open>
  One promise of a batch: the \<open>async\<close> arrow function of \<open>batch.map\<close>, with its own
  \<open>try\<close> and \<open>catch\<close> around the awaited call of the fetcher.
\<close>

definition batchPromise ::
  "(string \<Rightarrow> exn + 'a option) \<Rightarrow> string \<Rightarrow> event list
     \<Rightarrow> (string \<times> 'a option) promise \<times> event list" where
  "batchPromise fetchOne sc net =
     (case callFetcher fetchOne sc net of
        (Promise request settled, net1) \<Rightarrow>
          (Promise request (case settled of Inl e \<Rightarrow> Inr (sc, None) | Inr d \<Rightarrow> Inr (sc, d)), net1))"

text \<open>\<open>batch.map(f)\<close>: the calls are made one after the other, in the order of the batch.\<close>

fun mapCalls ::
  "(string \<Rightarrow> event list \<Rightarrow> 'p \<times> event list) \<Rightarrow> string list \<Rightarrow> event list \<Rightarrow> 'p list \<times> event list" where
  "mapCalls f [] net = ([], net)"
| "mapCalls f (sc # scs) net =
     (case f sc net of
        (p, net1) \<Rightarrow> (case mapCalls f scs net1 of (ps, net2) \<Rightarrow> (p # ps, net2)))"

text \<open>
  \<open>await Promise.all(promises)\<close>: the values of the promises in the order of the list,
  once every answer is in; it rejects when one of its promises does.
\<close>

fun settled :: "'a promise list \<Rightarrow> exn + 'a list" where
  "settled [] = Inr []"
| "settled (Promise request p # ps) =
     (case p of
        Inl e \<Rightarrow> Inl e
      | Inr x \<Rightarrow> (case settled ps of Inl e \<Rightarrow> Inl e | Inr xs \<Rightarrow> Inr (x # xs)))"

definition requestOf :: "'a promise \<Rightarrow> string" where
  "requestOf p = (case p of Promise request s \<Rightarrow> request)"

definition Promise_all :: "'a promise list \<Rightarrow> event list \<Rightarrow> (exn + 'a list) \<times> event list" where
  "Promise_all promises net =
     (case settled promises of
        Inl e \<Rightarrow> (Inl e, net)
      | Inr xs \<Rightarrow> (Inr xs, net @ [Responses (map requestOf promises)]))"

text \<open>\<open>await new Promise(resolve => setTimeout(resolve, ms))\<close>\<close>

definition delay :: "nat \<Rightarrow> event list \<Rightarrow> event list" where
  "delay ms net = net @ [Delay ms]"

text \<open>\<open>batchResults.forEach\<close>: a result that is not \<open>null\<close> is stored.\<close>

definition storeResults :: "(string \<times> 'a option) list \<Rightarrow> 'a jsMap \<Rightarrow> 'a jsMap" where
  "storeResults batchResults results =
     fold (\<lambda>(sc, d) r. case d of None \<Rightarrow> r | Some v \<Rightarrow> mapSet sc v r) batchResults results"

text \<open>
  The \<open>for\<close> loop: \<open>i\<close> is its counter, \<open>results\<close> the map it fills, \<open>net\<close> the events so
  far.  The requests of a batch are all sent by \<open>batch.map\<close> before \<open>Promise.all\<close> is
  awaited.
\<close>

function fetchLoop ::
  "(string \<Rightarrow> exn + 'a option) \<Rightarrow> string list \<Rightarrow> nat \<Rightarrow> 'a jsMap \<Rightarrow> event list
     \<Rightarrow> exn + ('a jsMap \<times> event list)" where
  "fetchLoop fetchOne scripcodes i results net =
     (if i < length scripcodes then
        (case mapCalls (batchPromise fetchOne) (take BATCH_SIZE (drop i scripcodes)) net of
           (batchPromises, net1) \<Rightarrow>
             (case Promise_all batchPromises net1 of
                (Inl e, net2) \<Rightarrow> Inl e
              | (Inr batchResults, net2) \<Rightarrow>
                  fetchLoop fetchOne scripcodes (i + BATCH_SIZE)
                    (storeResults batchResults results)
                    (if i + BATCH_SIZE < length scripcodes then delay BATCH_DELAY_MS net2 else net2)))
      else Inr (results, net))"
  by pat_completeness auto
termination
  by (relation "measure (\<lambda>(fetchOne, scripcodes, i, results, net). length scripcodes - i)")
     (auto simp: BATCH_SIZE_def)

declare fetchLoop.simps [simp del]

text \<open>The events are those of this call: it starts from none.\<close>

definition fetchInBatches ::
  "(string \<Rightarrow> exn + 'a option) \<Rightarrow> string list \<Rightarrow> exn + ('a jsMap \<times> event list)" where
  "fetchInBatches fetchOne scripcodes =
     (if length scripcodes = 0 then Inr ([], []) else fetchLoop fetchOne scripcodes 0 [] [])"

definition fetchMultipleBSEData :: "Vendor \<Rightarrow> string list \<Rightarrow> exn + (BSEStockData jsMap \<times> event list)" where
  "fetchMultipleBSEData vendor scripcodes =
     fetchInBatches (\<lambda>sc. Inr (fetchBSEData vendor sc)) scripcodes"

definition fetchMultipleBSEFundamentals ::
  "Vendor \<Rightarrow> string list \<Rightarrow> exn + (BSEFundamentalsData jsMap \<times> event list)" where
  "fetchMultipleBSEFundamentals vendor scripcodes =
     fetchInBatches (\<lambda>sc. Inr (fetchBSEFundamentals vendor sc)) scripcodes"

section \<open>Portfolio aggregator (portfolioData)\<close>

subsection \<open>Holdings\<close>

record Fixed =
  purchasePrice :: rat
  qty :: rat
  investment :: rat
  portfolioPercent :: string
  stage2 :: bool

datatype PriceSource = bse | yahoo | static

text \<open>
  The \<open>realtime\<close> block of \<open>UpdatedPortfolioHolding\<close>; \<open>lastUpdated\<close> and \<open>priceSource\<close>
  are optional.
\<close>

record Realtime =
  cmp :: number
  presentValue :: number
  gainLoss :: number
  gainLossPercent :: string
  marketCap :: number
  lastUpdated :: "string option"
  priceSource :: "PriceSource option"

datatype stringOrNumber = Str string | Numb number

record Fundamentals =
  peTTM :: "number option"
  latestEarnings :: "number option"
  revenueTTM :: "stringOrNumber option"
  ebitdaTTM :: "number option"
  ebitdaPercent :: "string option"
  pat :: "stringOrNumber option"
  patPercent :: "string option"
  cfoMarch24 :: "number option"
  cfo5Years :: "number option"
  debtToEquity :: "number option"
  bookValue :: "stringOrNumber option"
  revenueGrowth :: "string option"
  ebitdaGrowth :: "string option"
  profitGrowth :: "string option"
  marketCapGrowth :: "string option"
  priceToSales :: "number option"
  cfoToEbitda :: "string option"
  cfoToPat :: "string option"
  priceToBook :: "number option"

record Holding =
  symbol :: string
  companyName :: string
  sector :: string
  fixed :: Fixed
  realtime :: Realtime
  fundamentals :: Fundamentals

subsection \<open>Number.prototype.toFixed(2)\<close>

definition digitChar :: "nat \<Rightarrow> char" where
  "digitChar d = char_of (48 + d)"

fun showNat :: "nat \<Rightarrow> string" where
  "showNat n = (if n < 10 then [digitChar n] else showNat (n div 10) @ [digitChar (n mod 10)])"

declare showNat.simps [simp del]

text \<open>
  Modelled from the ECMAScript definition of \<open>toFixed\<close> with two fraction digits, for
  values below \<open>10^21\<close> in magnitude: the integer \<open>n\<close> nearest to \<open>100 * |x|\<close> (the larger
  one of two) is printed with a point before its last two digits, after a minus sign when
  \<open>x < 0\<close>.
\<close>

definition hundredths :: "rat \<Rightarrow> nat" where
  "hundredths r = nat \<lfloor>\<bar>r\<bar> * 100 + 1 / 2\<rfloor>"

definition toFixed2 :: "number \<Rightarrow> string" where
  "toFixed2 x =
     (case x of
        NaN \<Rightarrow> ''NaN''
      | PosInf \<Rightarrow> ''Infinity''
      | NegInf \<Rightarrow> ''-Infinity''
      | Null \<Rightarrow> []
      | Num r \<Rightarrow>
          (if r < 0 then ''-'' else []) @ showNat (hundredths r div 100) @ ''.''
            @ [digitChar (hundredths r mod 100 div 10), digitChar (hundredths r mod 10)])"

subsection \<open>Recomputing one holding\<close>

definition updateRealtime :: "Holding \<Rightarrow> BSEStockData \<Rightarrow> Realtime" where
  "updateRealtime holding bseData =
     (let newPresentValue = times (currentPrice bseData) (qty (fixed holding));
          newGainLoss = minus newPresentValue (investment (fixed holding));
          newGainLossPercent =
            (if investment (fixed holding) > 0
             then toFixed2 (times (divide newGainLoss (investment (fixed holding))) 100)
             else ''0.00'')
      in (realtime holding)
           \<lparr> cmp := currentPrice bseData,
             presentValue := newPresentValue,
             gainLoss := newGainLoss,
             gainLossPercent := (if geZero newGainLoss then ''+'' else []) @ newGainLossPercent @ ''%'',
             marketCap := marketCap (realtime holding),
             lastUpdated := Some (BSEStockData.lastUpdated bseData),
             priceSource := Some bse \<rparr>)"

text \<open>\<open>a ?? b\<close>: \<open>b\<close> when \<open>a\<close> is \<open>null\<close>.\<close>

definition nullish :: "'a option \<Rightarrow> 'a option \<Rightarrow> 'a option" where
  "nullish a b = (case a of None \<Rightarrow> b | Some v \<Rightarrow> Some v)"

definition mapBSEFundamentalsToPortfolio :: "BSEFundamentalsData \<Rightarrow> Fundamentals \<Rightarrow> Fundamentals" where
  "mapBSEFundamentalsToPortfolio bseFundamentals existingFundamentals =
     existingFundamentals
       \<lparr> peTTM := nullish (pe bseFundamentals) (peTTM existingFundamentals),
         priceToBook := nullish (pb bseFundamentals) (priceToBook existingFundamentals),
         latestEarnings := nullish (eps bseFundamentals) (latestEarnings existingFundamentals) \<rparr>"

text \<open>
  The body of \<open>holdings.map\<close> in \<open>getPortfolioWithRealtimeData\<close>.  Nothing inside its
  \<open>try\<close> block can throw, so the \<open>catch\<close> handler has no case here.
\<close>

definition updateHolding ::
  "string jsMap \<Rightarrow> BSEStockData jsMap \<Rightarrow> BSEFundamentalsData jsMap \<Rightarrow> Holding \<Rightarrow> Holding" where
  "updateHolding symbolToScripcode priceDataMap fundamentalsMap holding =
     (case mapGet symbolToScripcode (symbol holding) of
        None \<Rightarrow> holding
      | Some sc \<Rightarrow>
          if sc = [] then holding
          else
            (let updated =
                   (case mapGet priceDataMap sc of
                      None \<Rightarrow> holding
                    | Some bseData \<Rightarrow> holding \<lparr> realtime := updateRealtime holding bseData \<rparr>)
             in case mapGet fundamentalsMap sc of
                  None \<Rightarrow> updated
                | Some bseFundamentals \<Rightarrow>
                    updated \<lparr> fundamentals :=
                      mapBSEFundamentalsToPortfolio bseFundamentals (fundamentals holding) \<rparr>))"

subsection \<open>The environment of one call\<close>

text \<open>
  The three cache files, and what the call reads from outside: the vendor, whether the
  cache directory can be written, and the readings of the clock (\<open>Date.now()\<close>) at the
  places that read it.
\<close>

record Disk =
  scripcodeFile :: "ScripcodeMapping cacheFile"
  priceFile :: "PriceCache cacheFile"
  fundamentalsFile :: "CachedFundamentals cacheFile"

record Env =
  vendor :: Vendor
  writable :: bool
  priceLoadClock :: "nat \<Rightarrow> int"
  priceSaveClock :: "nat \<Rightarrow> int"
  priceReloadClock :: "nat \<Rightarrow> int"
  fundamentalsLoadNow :: int
  fundamentalsSaveNow :: int

subsection \<open>Resolving symbols\<close>

text \<open>The scripcode found, and the cache map after the call (the map is shared and mutated).\<close>

definition resolveBSEScripcode :: "Vendor \<Rightarrow> string jsMap \<Rightarrow> string \<Rightarrow> string option \<times> string jsMap" where
  "resolveBSEScripcode v scripcodeCache symb =
     (if isBSEScripcode symb then (Some symb, scripcodeCache)
      else if truthy (mapGet scripcodeCache symb) then (mapGet scripcodeCache symb, scripcodeCache)
      else (case searchResult v symb of
              None \<Rightarrow> (None, scripcodeCache)
            | Some sc \<Rightarrow>
                if sc \<noteq> [] then (Some sc, mapSet symb sc scripcodeCache)
                else (None, scripcodeCache)))"

text \<open>\<open>[...new Set(xs)]\<close>: the first occurrence of every element, in order.\<close>

fun uniq :: "'a list \<Rightarrow> 'a list" where
  "uniq [] = []"
| "uniq (x # xs) = x # uniq (filter (\<lambda>y. y \<noteq> x) xs)"

text \<open>
  \<open>Promise.all\<close> over the distinct symbols.  Every call looks its own symbol up before
  any call writes to the shared map, and the calls write under distinct keys; the writes
  are applied here in the order of the list.
\<close>

definition resolveAll ::
  "Vendor \<Rightarrow> string jsMap \<Rightarrow> string list \<Rightarrow> (string \<times> string option) list \<times> string jsMap" where
  "resolveAll v scripcodeCache symbols =
     (map (\<lambda>s. (s, fst (resolveBSEScripcode v scripcodeCache s))) symbols,
      fold (\<lambda>s c. snd (resolveBSEScripcode v c s)) symbols scripcodeCache)"

text \<open>The two maps of \<open>resolved.forEach\<close>: \<open>symbolToScripcode\<close> and \<open>newMappings\<close>.\<close>

definition collectResolved :: "(string \<times> string option) list \<Rightarrow> string jsMap" where
  "collectResolved resolved =
     fold (\<lambda>(s, scripcode) m.
             case scripcode of None \<Rightarrow> m | Some sc \<Rightarrow> if sc \<noteq> [] then mapSet s sc m else m)
       resolved []"

definition collectNew :: "string jsMap \<Rightarrow> (string \<times> string option) list \<Rightarrow> string jsMap" where
  "collectNew scripcodeCache resolved =
     fold (\<lambda>(s, scripcode) m.
             case scripcode of
               None \<Rightarrow> m
             | Some sc \<Rightarrow> if sc \<noteq> [] \<and> \<not> mapHas scripcodeCache s then mapSet s sc m else m)
       resolved []"

definition resolvePhase :: "Env \<Rightarrow> Disk \<Rightarrow> Holding list \<Rightarrow> string jsMap \<times> Disk" where
  "resolvePhase env disk holdings =
     (let scripcodeCache = loadScripcodeCache (scripcodeFile disk);
          uniqueSymbols = uniq (map symbol holdings);
          (resolved, scripcodeCache1) = resolveAll (vendor env) scripcodeCache uniqueSymbols;
          symbolToScripcode = collectResolved resolved;
          newMappings = collectNew scripcodeCache1 resolved
      in (symbolToScripcode,
          if length newMappings > 0
          then disk \<lparr> scripcodeFile :=
                 saveScripcodeCache (writable env) (setAll newMappings scripcodeCache1)
                   (scripcodeFile disk) \<rparr>
          else disk))"

subsection \<open>Fundamentals and prices: cache first, then the vendor\<close>

definition getFundamentalsForBSEScripcodes ::
  "Env \<Rightarrow> string list \<Rightarrow> CachedFundamentals cacheFile
     \<Rightarrow> exn + (BSEFundamentalsData jsMap \<times> CachedFundamentals cacheFile)" where
  "getFundamentalsForBSEScripcodes env scripcodes f =
     (if length scripcodes = 0 then Inr ([], f)
      else
        (let cached = loadFundamentalsCache (fundamentalsLoadNow env) f;
             result = (case cached of None \<Rightarrow> [] | Some m \<Rightarrow> newMap m);
             missingScripcodes = filter (\<lambda>sc. \<not> mapHas result sc) scripcodes
         in if length missingScripcodes = 0 then Inr (result, f)
            else
              (case fetchMultipleBSEFundamentals (vendor env) missingScripcodes of
                 Inl e \<Rightarrow> Inl e
               | Inr (fetchedFundamentals, trace) \<Rightarrow>
                   (let merged = setAll fetchedFundamentals result
                    in Inr (merged,
                            saveFundamentalsCache (writable env) (fundamentalsSaveNow env) merged f)))))"

text \<open>\<open>uniqueScripcodes.forEach\<close>: the cached prices, and the scripcodes still to fetch.\<close>

definition splitCached :: "BSEStockData jsMap \<Rightarrow> string list \<Rightarrow> BSEStockData jsMap \<times> string list" where
  "splitCached priceCache scripcodes =
     fold (\<lambda>sc (priceDataMap, scripcodesToFetch).
             case mapGet priceCache sc of
               Some cachedPrice \<Rightarrow> (mapSet sc cachedPrice priceDataMap, scripcodesToFetch)
             | None \<Rightarrow> (priceDataMap, scripcodesToFetch @ [sc]))
       scripcodes ([], [])"

definition pricePhase ::
  "Env \<Rightarrow> BSEStockData jsMap \<Rightarrow> string list \<Rightarrow> PriceCache cacheFile
     \<Rightarrow> exn + (BSEStockData jsMap \<times> PriceCache cacheFile)" where
  "pricePhase env priceCache uniqueScripcodes f =
     (let (priceDataMap, scripcodesToFetch) = splitCached priceCache uniqueScripcodes
      in if length scripcodesToFetch > 0 then
           (case fetchMultipleBSEData (vendor env) scripcodesToFetch of
              Inl e \<Rightarrow> Inl e
            | Inr (fetchedPrices, trace) \<Rightarrow>
                Inr (setAll fetchedPrices priceDataMap,
                     savePriceCache (writable env) (priceSaveClock env) fetchedPrices f))
         else Inr (priceDataMap, f))"

subsection \<open>aggregateAll and aggregateOne\<close>

text \<open>\<open>holdings\<close> is the value of \<open>getPortfolioData()\<close>, the static portfolio.\<close>

definition getPortfolioWithRealtimeData :: "Env \<Rightarrow> Disk \<Rightarrow> Holding list \<Rightarrow> exn + (Holding list \<times> Disk)" where
  "getPortfolioWithRealtimeData env disk holdings =
     (let priceCache = loadPriceCache (priceLoadClock env) (priceFile disk);
          (symbolToScripcode, disk1) = resolvePhase env disk holdings;
          uniqueScripcodes = uniq (map snd symbolToScripcode)
      in case getFundamentalsForBSEScripcodes env uniqueScripcodes (fundamentalsFile disk1) of
           Inl e \<Rightarrow> Inl e
         | Inr (fundamentalsMap, ff) \<Rightarrow>
             (case pricePhase env priceCache uniqueScripcodes (priceFile disk1) of
                Inl e \<Rightarrow> Inl e
              | Inr (priceDataMap, pf) \<Rightarrow>
                  Inr (map (updateHolding symbolToScripcode priceDataMap fundamentalsMap) holdings,
                       disk1 \<lparr> fundamentalsFile := ff, priceFile := pf \<rparr>)))"

definition getHoldingWithRealtimeData ::
  "Env \<Rightarrow> Disk \<Rightarrow> Holding list \<Rightarrow> string \<Rightarrow> exn + (Holding option \<times> Disk)" where
  "getHoldingWithRealtimeData env disk holdings symb =
     (case find (\<lambda>h. symbol h = symb) holdings of
        None \<Rightarrow> Inr (None, disk)
      | Some holding \<Rightarrow>
          (let scripcodeCache = loadScripcodeCache (scripcodeFile disk);
               priceCache = loadPriceCache (priceLoadClock env) (priceFile disk);
               (scripcode, scripcodeCache1) =
                 resolveBSEScripcode (vendor env) scripcodeCache (symbol holding);
               disk1 =
                 (case scripcode of
                    None \<Rightarrow> disk
                  | Some sc \<Rightarrow>
                      if sc \<noteq> [] \<and> \<not> mapHas scripcodeCache1 (symbol holding)
                      then disk \<lparr> scripcodeFile :=
                             saveScripcodeCache (writable env)
                               (mapSet (symbol holding) sc scripcodeCache1) (scripcodeFile disk) \<rparr>
                      else disk)
           in case scripcode of
                None \<Rightarrow> Inr (Some holding, disk1)
              | Some sc \<Rightarrow>
                  if sc = [] then Inr (Some holding, disk1)
                  else
                    (let cached = mapGet priceCache sc;
                         fetched = (case cached of None \<Rightarrow> fetchBSEData (vendor env) sc | Some d \<Rightarrow> None);
                         bseData = (case cached of None \<Rightarrow> fetched | Some d \<Rightarrow> Some d);
                         disk2 =
                           (case fetched of
                              None \<Rightarrow> disk1
                            | Some d \<Rightarrow>
                                disk1 \<lparr> priceFile :=
                                  savePriceToCache (writable env) (priceReloadClock env)
                                    (priceSaveClock env) sc d (priceFile disk1) \<rparr>);
                         updated =
                           (case bseData of
                              None \<Rightarrow> holding
                            | Some d \<Rightarrow> holding \<lparr> realtime := updateRealtime holding d \<rparr>)
                     in case getFundamentalsForBSEScripcodes env [sc] (fundamentalsFile disk2) of
                          Inl e \<Rightarrow> Inr (Some updated, disk2)
                        | Inr (fundamentalsMap, ff) \<Rightarrow>
                            Inr (Some (case mapGet fundamentalsMap sc of
                                         None \<Rightarrow> updated
                                       | Some bseFundamentals \<Rightarrow>
                                           updated \<lparr> fundamentals :=
                                             mapBSEFundamentalsToPortfolio bseFundamentals
                                               (fundamentals holding) \<rparr>),
                                 disk2 \<lparr> fundamentalsFile := ff \<rparr>))))"

subsection \<open>The maps of one call, by name\<close>

text \<open>
  The three maps that \<open>getPortfolioWithRealtimeData\<close> builds before it recomputes the
  holdings: symbol to scripcode, scripcode to price, scripcode to fundamentals.
\<close>

definition symbolToScripcodeOf :: "Env \<Rightarrow> Disk \<Rightarrow> Holding list \<Rightarrow> string jsMap" where
  "symbolToScripcodeOf env disk holdings = fst (resolvePhase env disk holdings)"

definition uniqueScripcodesOf :: "Env \<Rightarrow> Disk \<Rightarrow> Holding list \<Rightarrow> string list" where
  "uniqueScripcodesOf env disk holdings = uniq (map snd (symbolToScripcodeOf env disk holdings))"

definition priceDataMapOf :: "Env \<Rightarrow> Disk \<Rightarrow> Holding list \<Rightarrow> BSEStockData jsMap" where
  "priceDataMapOf env disk holdings =
     (case pricePhase env (loadPriceCache (priceLoadClock env) (priceFile disk))
             (uniqueScripcodesOf env disk holdings)
             (priceFile (snd (resolvePhase env disk holdings))) of
        Inl e \<Rightarrow> []
      | Inr (priceDataMap, pf) \<Rightarrow> priceDataMap)"

definition fundamentalsMapOf :: "Env \<Rightarrow> Disk \<Rightarrow> Holding list \<Rightarrow> BSEFundamentalsData jsMap" where
  "fundamentalsMapOf env disk holdings =
     (case getFundamentalsForBSEScripcodes env (uniqueScripcodesOf env disk holdings)
             (fundamentalsFile (snd (resolvePhase env disk holdings))) of
        Inl e \<Rightarrow> []
      | Inr (fundamentalsMap, ff) \<Rightarrow> fundamentalsMap)"

subsection \<open>What is available for one scripcode\<close>

text \<open>
  The price \<open>getHoldingWithRealtimeData\<close> has for a scripcode (the cached one, else the
  fetched one), and the fundamentals \<open>getFundamentalsForBSEScripcodes\<close> gives it.
\<close>

definition priceFor :: "Env \<Rightarrow> Disk \<Rightarrow> string \<Rightarrow> BSEStockData option" where
  "priceFor env disk sc =
     (case mapGet (loadPriceCache (priceLoadClock env) (priceFile disk)) sc of
        Some d \<Rightarrow> Some d
      | None \<Rightarrow> fetchBSEData (vendor env) sc)"

definition fundamentalsFor :: "Env \<Rightarrow> Disk \<Rightarrow> string \<Rightarrow> BSEFundamentalsData option" where
  "fundamentalsFor env disk sc =
     (case getFundamentalsForBSEScripcodes env [sc] (fundamentalsFile disk) of
        Inl e \<Rightarrow> None
      | Inr (fundamentalsMap, ff) \<Rightarrow> mapGet fundamentalsMap sc)"

section \<open>Policies in the words of the specification\<close>

text \<open>
  A token that carries no number: it is missing, empty, the dash, blank, or a text that
  \<open>parseFloat\<close> cannot read.
\<close>

definition unparsable :: "string option \<Rightarrow> bool" where
  "unparsable value =
     (case value of
        None \<Rightarrow> True
      | Some v \<Rightarrow> v = [] \<or> v = ''-'' \<or> trim v = [] \<or> parseFloat v = NaN)"

text \<open>
  What one identifier comes to in a batch: the record its fetch returns, or nothing when
  the fetch throws or returns \<open>null\<close>.
\<close>

definition outcome :: "(string \<Rightarrow> exn + 'a option) \<Rightarrow> string \<Rightarrow> 'a option" where
  "outcome fetchOne sc = (case fetchOne sc of Inl e \<Rightarrow> None | Inr d \<Rightarrow> d)"

text \<open>
  The specification's batches: the list cut into consecutive pieces of \<open>n\<close>, and a pause
  between two pieces, none after the last.  A batch is issued concurrently: all its
  requests are sent, then all its answers are awaited.
\<close>

function chunks :: "nat \<Rightarrow> 'a list \<Rightarrow> 'a list list" where
  "chunks n xs = (if n = 0 \<or> xs = [] then [] else take n xs # chunks n (drop n xs))"
  by pat_completeness auto
termination
  by (relation "measure (\<lambda>(n, xs). length xs)") auto

declare chunks.simps [simp del]

fun between :: "'a \<Rightarrow> 'a list \<Rightarrow> 'a list" where
  "between d [] = []"
| "between d [x] = [x]"
| "between d (x # y # r) = x # d # between d (y # r)"

definition concurrently :: "string list \<Rightarrow> event list" where
  "concurrently batch = map Request batch @ [Responses batch]"

definition batchTrace :: "string list \<Rightarrow> event list" where
  "batchTrace scripcodes =
     concat (between [Delay 1000] (map concurrently (chunks 10 scripcodes)))"

section \<open>Example inputs\<close>

definition noFundamentals :: Fundamentals where
  "noFundamentals =
     \<lparr> peTTM = None, latestEarnings = None, revenueTTM = None, ebitdaTTM = None,
       ebitdaPercent = None, pat = None, patPercent = None, cfoMarch24 = None,
       cfo5Years = None, debtToEquity = None, bookValue = None, revenueGrowth = None,
       ebitdaGrowth = None, profitGrowth = None, marketCapGrowth = None,
       priceToSales = None, cfoToEbitda = None, cfoToPat = None, priceToBook = None \<rparr>"

text \<open>The holding of the specification's example: bought at 100, 10 shares, 1000 invested.\<close>

definition exampleHolding :: Holding where
  "exampleHolding =
     \<lparr> symbol = ''HDFCBANK'', companyName = ''HDFC Bank'', sector = ''Financials'',
       fixed = \<lparr> purchasePrice = 100, qty = 10, investment = 1000,
                 portfolioPercent = ''5%'', stage2 = False \<rparr>,
       realtime = \<lparr> cmp = Num 100, presentValue = Num 1000, gainLoss = Num 0,
                    gainLossPercent = ''0.00%'', marketCap = Num 5,
                    lastUpdated = None, priceSource = None \<rparr>,
       fundamentals = noFundamentals \<rparr>"

definition emptyFundamentalsResponse :: BSEFundamentalsResponse where
  "emptyFundamentalsResponse =
     \<lparr> SecurityId = None, FaceVal = None, ISIN = None, Industry = None, Group = None,
       Index = None, EPS = None, CEPS = None, PE = None, OPM = None, NPM = None, PB = None,
       ROE = None, Sector = None, IndustryNew = None, ISubGroup = None \<rparr>"

definition priceResponse :: "string \<Rightarrow> BSEResponse" where
  "priceResponse ltp =
     \<lparr> CurrRate = Some \<lparr> LTP = Some ltp, Chg = Some ''+1.50'', PcChg = Some ''+1.26%'' \<rparr>,
       Cmpname = None, Header = None \<rparr>"

text \<open>
  A vendor that knows one symbol, quotes it at 120, and fails every request for
  fundamentals.
\<close>

definition exampleVendor :: Vendor where
  "exampleVendor =
     \<lparr> searchResult = (\<lambda>s. if s = ''HDFCBANK'' then Some ''500180'' else None),
       priceAnswer = (\<lambda>sc. if sc = ''500180'' then Body (priceResponse ''120'') else Rejected),
       fundamentalsAnswer = (\<lambda>sc. NotOk),
       isoNow = ''2026-01-01T00:00:00.000Z'' \<rparr>"

definition exampleEnv :: Env where
  "exampleEnv =
     \<lparr> vendor = exampleVendor, writable = True,
       priceLoadClock = (\<lambda>i. 1000), priceSaveClock = (\<lambda>i. 3000), priceReloadClock = (\<lambda>i. 2500),
       fundamentalsLoadNow = 1500, fundamentalsSaveNow = 2000 \<rparr>"

definition emptyDisk :: Disk where
  "emptyDisk = \<lparr> scripcodeFile = None, priceFile = None, fundamentalsFile = None \<rparr>"

text \<open>What the fetchers make of the vendor's answers for the example.\<close>

definition exampleQuote :: BSEStockData where
  "exampleQuote = mapBSEResponseToStockData ''2026-01-01T00:00:00.000Z'' ''500180'' (priceResponse ''120'')"

definition exampleRatios :: "string \<Rightarrow> BSEFundamentalsData" where
  "exampleRatios sc =
     mapBSEFundamentalsResponse sc (emptyFundamentalsResponse \<lparr> EPS := Some ''12.5'', PE := Some ''-'' \<rparr>)"

text \<open>Twenty-five scripcodes, \<open>500000\<close> to \<open>500024\<close>.\<close>

definition exampleScripcodes :: "string list" where
  "exampleScripcodes =
     [''500000'', ''500001'', ''500002'', ''500003'', ''500004'',
      ''500005'', ''500006'', ''500007'', ''500008'', ''500009'',
      ''500010'', ''500011'', ''500012'', ''500013'', ''500014'',
      ''500015'', ''500016'', ''500017'', ''500018'', ''500019'',
      ''500020'', ''500021'', ''500022'', ''500023'', ''500024'']"

text \<open>Two prices in a map; the vendor answered the first request with a dash for the price.\<close>

definition dashQuote :: BSEStockData where
  "dashQuote = mapBSEResponseToStockData ''2026-01-01T00:00:00.000Z'' ''500209'' (priceResponse ''-'')"

definition twoPrices :: "BSEStockData jsMap" where
  "twoPrices = [(''500209'', dashQuote), (''500180'', exampleQuote)]"

text \<open>A vendor that quotes the scripcode \<open>500003\<close> at 120 and rejects every other request.\<close>

definition batchVendor :: Vendor where
  "batchVendor =
     exampleVendor \<lparr> priceAnswer :=
       (\<lambda>sc. if sc = ''500003'' then Body (priceResponse ''120'') else Rejected) \<rparr>"

text \<open>The same holding with nothing invested, and one under a symbol the vendor does not know.\<close>

definition zeroInvestmentHolding :: Holding where
  "zeroInvestmentHolding = exampleHolding \<lparr> fixed := (fixed exampleHolding) \<lparr> investment := 0 \<rparr> \<rparr>"

definition unknownHolding :: Holding where
  "unknownHolding = exampleHolding \<lparr> symbol := ''UNKNOWN'' \<rparr>"

section \<open>Cache layer: loading\<close>

lemma trim_Nil: "trim [] = []"
  by (simp add: trim_def)

text \<open>
  C6.  For each of the three stores, loading a cache file that is missing, or whose text
  is empty, blank or rejected by \<open>JSON.parse\<close>, gives the empty result: the empty map for
  the scripcode and the price store, \<open>null\<close> for the fundamentals store.  The loaders have
  no error result: every one is the \<open>catch\<close> of its \<open>try\<close> block.
\<close>

theorem load_without_document:
  "loadScripcodeCache None = [] \<and> loadScripcodeCache (Some (Text s)) = [] \<and>
   loadPriceCache clock None = [] \<and> loadPriceCache clock (Some (Text s)) = [] \<and>
   loadFundamentalsCache now None = None \<and> loadFundamentalsCache now (Some (Text s)) = None"
  by (simp add: loadScripcodeCache_def loadScripcodeCache_try_def loadPriceCache_def
      loadPriceCache_try_def loadFundamentalsCache_def loadFundamentalsCache_try_def
      readFile_def isBlank_def JSON_parse_def)

text \<open>Inside the \<open>try\<close> blocks, the missing file and the rejected text are errors.\<close>

lemma load_try_errors:
  "loadScripcodeCache_try None = Inl IOError"
  "loadPriceCache_try clock None = Inl IOError"
  "loadFundamentalsCache_try now None = Inl IOError"
  "trim s \<noteq> [] \<Longrightarrow> loadScripcodeCache_try (Some (Text s)) = Inl SyntaxError"
  "trim s \<noteq> [] \<Longrightarrow> loadPriceCache_try clock (Some (Text s)) = Inl SyntaxError"
  "trim s \<noteq> [] \<Longrightarrow> loadFundamentalsCache_try now (Some (Text s)) = Inl SyntaxError"
  by (auto simp: loadScripcodeCache_try_def loadPriceCache_try_def
      loadFundamentalsCache_try_def readFile_def JSON_parse_def isBlank_def trim_Nil)

section \<open>Fetchers: numeric fields\<close>

lemma parseFloat_dash: "parseFloat ''-'' = NaN"
  by (simp add: parseFloat_def splitSign_def isWhiteSpace_def)




lemma unparsable_tokens: "unparsable None" "unparsable (Some [])" "unparsable (Some ''-'')"
  by (simp_all add: unparsable_def)





section \<open>The Map\<close>

lemma mapGet_mapSet: "mapGet (mapSet k v m) k' = (if k' = k then Some v else mapGet m k')"
  by (simp add: mapGet_def mapSet_def update_conv')

lemma mapHas_mapGet: "mapHas m k = (mapGet m k \<noteq> None)"
  by (simp add: mapHas_def mapGet_def)

lemma keys_mapSet: "fst ` set (mapSet k v m) = insert k (fst ` set m)"
  by (simp add: mapSet_def dom_update[unfolded dom_map_of_conv_image_fst])

lemma mapGet_None_iff: "mapGet m k = None \<longleftrightarrow> k \<notin> fst ` set m"
  by (simp add: mapGet_def map_of_eq_None_iff)

lemma mapSet_fresh: "k \<notin> fst ` set m \<Longrightarrow> mapSet k v m = m @ [(k, v)]"
  by (induction m) (auto simp: mapSet_def)

text \<open>Writing distinct new keys appends the entries in order.\<close>

lemma fold_mapSet_distinct:
  "distinct (map key xs) \<Longrightarrow> key ` set xs \<inter> fst ` set acc = {} \<Longrightarrow>
   fold (\<lambda>x r. mapSet (key x) (val x) r) xs acc = acc @ map (\<lambda>x. (key x, val x)) xs"
proof (induction xs arbitrary: acc)
  case Nil
  then show ?case by simp
next
  case (Cons x xs)
  have fresh: "key x \<notin> fst ` set acc"
    using Cons.prems(2) by auto
  have "key ` set xs \<inter> fst ` set (acc @ [(key x, val x)]) = {}"
    using Cons.prems by auto
  with Cons.IH [of "acc @ [(key x, val x)]"] Cons.prems(1) fresh show ?case
    by (simp add: mapSet_fresh)
qed

lemma setAll_distinct:
  "distinct (map fst es) \<Longrightarrow> fst ` set es \<inter> fst ` set m = {} \<Longrightarrow> setAll es m = m @ es"
  using fold_mapSet_distinct [of fst es m snd]
  by (simp add: setAll_def case_prod_unfold)

lemma newMap_distinct: "distinct (map fst es) \<Longrightarrow> newMap es = es"
  by (simp add: newMap_def setAll_distinct)

text \<open>In general the last write to a key wins.\<close>

lemma mapGet_setAll:
  "mapGet (setAll es m) k = (case map_of (rev es) k of None \<Rightarrow> mapGet m k | Some v \<Rightarrow> Some v)"
proof (induction es arbitrary: m)
  case Nil
  then show ?case by (simp add: setAll_def)
next
  case (Cons e es)
  obtain k' v' where e: "e = (k', v')" by (cases e)
  have "setAll (e # es) m = setAll es (mapSet k' v' m)"
    by (simp add: setAll_def e)
  then show ?case
    by (simp add: Cons.IH e mapGet_mapSet map_add_def split: option.splits)
qed

lemma map_of_snd_enumerate: "map (\<lambda>p. g (snd p)) (enumerate n xs) = map g xs"
  by (induction xs arbitrary: n) simp_all

section \<open>Objects: the order of the keys\<close>

lemma insort_key_map:
  "(\<And>x. f' (h x) = f x) \<Longrightarrow> map h (insort_key f x xs) = insort_key f' (h x) (map h xs)"
  by (induction xs) simp_all

lemma sort_key_map:
  "(\<And>x. f' (h x) = f x) \<Longrightarrow> map h (sort_key f xs) = sort_key f' (map h xs)"
proof (induction xs)
  case Nil
  then show ?case by simp
next
  case (Cons a xs)
  from Cons.prems have "map h (insort_key f a (sort_key f xs)) = insort_key f' (h a) (map h (sort_key f xs))"
    by (rule insort_key_map)
  with Cons show ?case by simp
qed

text \<open>The order depends on the keys only.\<close>

lemma ownKeyOrder_map:
  assumes "\<And>x. key' (h x) = key x"
  shows "map h (ownKeyOrder key xs) = ownKeyOrder key' (map h xs)"
proof -
  have s: "map h (sort_key (\<lambda>x. indexValue (key x)) ys) =
           sort_key (\<lambda>x. indexValue (key' x)) (map h ys)" for ys
    by (rule sort_key_map) (simp add: assms)
  show ?thesis
    by (simp add: ownKeyOrder_def s filter_map comp_def assms)
qed

lemma set_ownKeyOrder: "set (ownKeyOrder key xs) = set xs"
  by (auto simp: ownKeyOrder_def)

lemma length_ownKeyOrder: "length (ownKeyOrder key xs) = length xs"
  by (simp add: ownKeyOrder_def sum_length_filter_compl)

lemma distinct_ownKeyOrder: "distinct xs \<Longrightarrow> distinct (ownKeyOrder key xs)"
  by (auto simp: ownKeyOrder_def)

lemma distinct_keys_ownKeyOrder:
  "distinct (map key xs) \<Longrightarrow> distinct (map key (ownKeyOrder key xs))"
  using ownKeyOrder_map [of "\<lambda>k. k" key key xs] distinct_ownKeyOrder [of "map key xs" "\<lambda>k. k"]
  by simp

lemma ownKeyOrder_idem: "ownKeyOrder key (ownKeyOrder key xs) = ownKeyOrder key xs"
proof -
  let ?A = "sort_key (\<lambda>x. indexValue (key x)) (filter (\<lambda>x. isArrayIndex (key x)) xs)"
  let ?B = "filter (\<lambda>x. \<not> isArrayIndex (key x)) xs"
  have a: "filter (\<lambda>x. isArrayIndex (key x)) (?A @ ?B) = ?A"
    by (simp add: filter_sort [symmetric])
  have b: "filter (\<lambda>x. \<not> isArrayIndex (key x)) (?A @ ?B) = ?B"
    by (auto simp: filter_empty_conv)
  have c: "sort_key (\<lambda>x. indexValue (key x)) ?A = ?A"
    by (rule sort_key_id_if_sorted) (rule sorted_sort_key)
  show ?thesis
    unfolding ownKeyOrder_def a b c ..
qed

lemma Object_entries_keys:
  "map fst (Object_entries (map (\<lambda>x. (key x, val x)) xs)) = map key (ownKeyOrder key xs)"
proof -
  have "map fst (ownKeyOrder fst (map (\<lambda>x. (key x, val x)) xs)) =
        map fst (map (\<lambda>x. (key x, val x)) (ownKeyOrder key xs))"
    by (subst ownKeyOrder_map [of fst "\<lambda>x. (key x, val x)" key]) simp_all
  then show ?thesis
    by (simp add: Object_entries_def comp_def)
qed

section \<open>Price store: expiry entry by entry\<close>

lemma fold_price_skip:
  "sc \<notin> fst ` set es \<Longrightarrow>
   mapGet (fold (\<lambda>(i, (k, cachedPrice)) result.
                   if isPriceCacheValid (clock i) (CachedPrice.timestamp cachedPrice)
                   then mapSet k (CachedPrice.data cachedPrice) result else result)
             (enumerate n es) acc) sc = mapGet acc sc"
proof (induction es arbitrary: n acc)
  case Nil
  then show ?case by simp
next
  case (Cons e es)
  obtain k cp where e: "e = (k, cp)" by (cases e)
  from Cons.prems e have "k \<noteq> sc" "sc \<notin> fst ` set es" by auto
  then show ?case
    by (simp add: e Cons.IH mapGet_mapSet)
qed

lemma fold_price_entry:
  "distinct (map fst es) \<Longrightarrow> j < length es \<Longrightarrow> es ! j = (sc, cp) \<Longrightarrow>
   mapGet (fold (\<lambda>(i, (k, cachedPrice)) result.
                   if isPriceCacheValid (clock i) (CachedPrice.timestamp cachedPrice)
                   then mapSet k (CachedPrice.data cachedPrice) result else result)
             (enumerate n es) acc) sc =
   (if isPriceCacheValid (clock (n + j)) (CachedPrice.timestamp cp)
    then Some (CachedPrice.data cp) else mapGet acc sc)"
proof (induction es arbitrary: n acc j)
  case Nil
  then show ?case by simp
next
  case (Cons e es)
  obtain k cp' where e: "e = (k, cp')" by (cases e)
  show ?case
  proof (cases j)
    case 0
    with Cons.prems e have eq: "k = sc" "cp' = cp" and fresh: "sc \<notin> fst ` set es"
      by auto
    show ?thesis
      using fresh by (simp add: e eq 0 fold_price_skip mapGet_mapSet)
  next
    case (Suc j')
    with Cons.prems e have d: "distinct (map fst es)" and lt: "j' < length es"
      and at: "es ! j' = (sc, cp)" and ne: "k \<noteq> sc"
      by (auto dest: nth_mem [of j' es] simp: rev_image_eqI)
    show ?thesis
      using Cons.IH [OF d lt at] ne by (simp add: e Suc mapGet_mapSet)
  qed
qed

text \<open>
  Loading a price document: the entry that \<open>Object.entries\<close> lists at position \<open>j\<close> is in
  the result exactly when its age, at the reading of the clock made for it, is below the
  duration.
\<close>

lemma loadPriceCache_entry:
  assumes "distinct (map fst cached)" and "j < length cached"
    and "Object_entries cached ! j = (sc, cp)"
  shows "mapGet (loadPriceCache clock (Some (Json cached))) sc =
    (if clock j - CachedPrice.timestamp cp < PRICE_CACHE_DURATION_MS
     then Some (CachedPrice.data cp) else None)"
proof -
  have d: "distinct (map fst (Object_entries cached))"
    using assms(1) by (simp add: Object_entries_def distinct_keys_ownKeyOrder)
  have l: "j < length (Object_entries cached)"
    using assms(2) by (simp add: Object_entries_def length_ownKeyOrder)
  show ?thesis
    using fold_price_entry [OF d l assms(3), of clock 0 "[]"]
    by (simp add: loadPriceCache_def loadPriceCache_try_def readFile_def isBlank_def JSON_parse_def
        isPriceCacheValid_def mapGet_def)
qed

lemma savePriceCache_document:
  assumes "distinct (map fst prices)"
  shows "savePriceCache True clock prices f =
    Some (Json (JSON_stringify
      (map (\<lambda>x. (fst (snd x), \<lparr> CachedPrice.timestamp = clock (fst x), CachedPrice.data = snd (snd x) \<rparr>))
         (enumerate 0 prices))))"
proof -
  have d: "distinct (map (\<lambda>x. fst (snd x)) (enumerate 0 prices))"
    using assms by (simp add: map_of_snd_enumerate)
  show ?thesis
    using fold_mapSet_distinct [OF d, of "[]"
        "\<lambda>x. \<lparr> CachedPrice.timestamp = clock (fst x), CachedPrice.data = snd (snd x) \<rparr>"]
    by (simp add: savePriceCache_def case_prod_unfold)
qed

text \<open>
  What \<open>Object.entries\<close> lists at position \<open>j\<close> of the document that \<open>savePriceCache\<close>
  wrote: the entry of the map whose key comes at position \<open>j\<close> in the order of the keys,
  with the stamp of its position in the map.
\<close>

lemma saved_entry:
  assumes "distinct (map fst prices)" and "i < length prices" and "prices ! i = (sc, d)"
    and "j < length prices" and "fst (Object_entries prices ! j) = sc"
  shows "Object_entries (JSON_stringify
      (map (\<lambda>x. (fst (snd x), \<lparr> CachedPrice.timestamp = clock (fst x), CachedPrice.data = snd (snd x) \<rparr>))
         (enumerate 0 prices))) ! j =
    (sc, \<lparr> CachedPrice.timestamp = clock i, CachedPrice.data = JSON_BSEStockData d \<rparr>)"
proof -
  let ?key = "\<lambda>x :: nat \<times> string \<times> BSEStockData. fst (snd x)"
  let ?P = "enumerate 0 prices"
  let ?stamp = "\<lambda>x :: nat \<times> string \<times> BSEStockData.
     (?key x, \<lparr> CachedPrice.timestamp = clock (fst x), CachedPrice.data = snd (snd x) \<rparr>)"
  let ?out = "\<lambda>x :: nat \<times> string \<times> BSEStockData.
     (?key x, \<lparr> CachedPrice.timestamp = clock (fst x), CachedPrice.data = JSON_BSEStockData (snd (snd x)) \<rparr>)"
  let ?O = "ownKeyOrder ?key ?P"
  have c: "Object_entries (map ?stamp ?P) = map ?stamp ?O"
    unfolding Object_entries_def
    by (subst ownKeyOrder_map [of fst ?stamp ?key]) simp_all
  have doc: "JSON_stringify (map ?stamp ?P) = map ?out ?O"
    by (simp add: JSON_stringify_def c case_prod_unfold)
  have again: "Object_entries (map ?out ?O) = map ?out ?O"
    unfolding Object_entries_def
    by (subst ownKeyOrder_map [of fst ?out ?key, symmetric]) (simp_all add: ownKeyOrder_idem)
  have p: "Object_entries prices = map snd ?O"
  proof -
    have "Object_entries (map snd ?P) = map snd ?O"
      unfolding Object_entries_def
      by (subst ownKeyOrder_map [of fst snd ?key]) simp_all
    then show ?thesis
      by (simp add: map_snd_enumerate)
  qed
  have len: "length ?O = length prices"
    by (simp add: length_ownKeyOrder)
  have "?O ! j \<in> set ?P"
    using assms(4) len set_ownKeyOrder [of ?key ?P] nth_mem [of j ?O] by simp
  then obtain i' where i': "i' < length prices" and x: "?O ! j = (i', prices ! i')"
    by (auto simp: in_set_enumerate_eq)
  have "fst (prices ! i') = sc"
    using assms(4,5) x len by (simp add: p)
  then have "map fst prices ! i' = map fst prices ! i"
    using i' assms(2,3) by simp
  then have "i' = i"
    using assms(1,2) i' nth_eq_iff_index_eq [of "map fst prices" i' i] by simp
  with x assms(3) have "?O ! j = (i, (sc, d))"
    by simp
  then show ?thesis
    using assms(4) len by (simp add: doc again)
qed

text \<open>
  C5.  The duration of the price store is 2 minutes (120000 ms).  An entry that
  \<open>savePriceCache\<close> stamped with the time \<open>writeClock i\<close> (it is the entry at position \<open>i\<close>
  of the map) is in the result of \<open>loadPriceCache\<close> exactly when the clock reading made
  for it on loading satisfies the strict comparison \<open>reading - stamp < duration\<close>: present
  at every earlier reading, absent from \<open>stamp + duration\<close> on.  The loader goes through
  the document in the order of the keys of the object, so the reading is \<open>readClock j\<close>
  for the position \<open>j\<close> of the key in that order.  The record that comes back is the
  one written, through JSON.  (A Map has distinct keys.)
\<close>

theorem price_ttl:
  assumes "distinct (map fst prices)" and "i < length prices" and "prices ! i = (sc, d)"
    and "j < length prices" and "fst (Object_entries prices ! j) = sc"
  shows "PRICE_CACHE_DURATION_MS = 120000 \<and>
    mapGet (loadPriceCache readClock (savePriceCache True writeClock prices f)) sc =
      (if readClock j - writeClock i < PRICE_CACHE_DURATION_MS
       then Some (JSON_BSEStockData d) else None)"
proof -
  let ?doc = "JSON_stringify
      (map (\<lambda>x. (fst (snd x), \<lparr> CachedPrice.timestamp = writeClock (fst x), CachedPrice.data = snd (snd x) \<rparr>))
         (enumerate 0 prices))"
  have keys: "map fst ?doc = map fst (Object_entries prices)"
  proof -
    have "map fst ?doc = map (\<lambda>x. fst (snd x)) (ownKeyOrder (\<lambda>x. fst (snd x)) (enumerate 0 prices))"
      by (simp add: JSON_stringify_def case_prod_unfold comp_def Object_entries_keys)
    also have "\<dots> = map fst (map snd (ownKeyOrder (\<lambda>x. fst (snd x)) (enumerate 0 prices)))"
      by simp
    also have "\<dots> = map fst (ownKeyOrder fst (map snd (enumerate 0 prices)))"
      by (subst ownKeyOrder_map [of fst snd "\<lambda>x. fst (snd x)"]) simp_all
    finally show ?thesis
      by (simp add: Object_entries_def map_snd_enumerate)
  qed
  have d: "distinct (map fst ?doc)"
    unfolding keys using assms(1) by (simp add: Object_entries_def distinct_keys_ownKeyOrder)
  have l: "j < length ?doc"
    using assms(4) length_map [of fst ?doc] unfolding keys
    by (simp add: Object_entries_def length_ownKeyOrder)
  show ?thesis
    using loadPriceCache_entry [OF d l saved_entry [OF assms, of writeClock], of readClock]
    by (simp add: savePriceCache_document [OF assms(1)] PRICE_CACHE_DURATION_MS_def)
qed

lemma twoPrices_order:
  "fst (Object_entries twoPrices ! 0) = ''500180''" "fst (Object_entries twoPrices ! 1) = ''500209''"
  by code_simp+

lemma JSON_exampleQuote: "JSON_BSEStockData exampleQuote = exampleQuote"
  by code_simp

lemma JSON_dashQuote:
  "currentPrice dashQuote = NaN" "JSON_BSEStockData dashQuote = dashQuote \<lparr> currentPrice := Null \<rparr>"
  by code_simp+

text \<open>
  Two entries, written one millisecond apart in the order \<open>500209\<close>, \<open>500180\<close> and read
  back one millisecond apart in the order \<open>500180\<close>, \<open>500209\<close>; and one entry read
  one millisecond before and at the end of the duration.
\<close>

theorem price_ttl_witness:
  "distinct (map fst twoPrices) \<and>
   fst (Object_entries twoPrices ! 0) = ''500180'' \<and>
   fst (Object_entries twoPrices ! 1) = ''500209'' \<and>
   mapGet (loadPriceCache (\<lambda>j. 120999 + int j)
             (savePriceCache True (\<lambda>i. 1000 + int i) twoPrices None)) ''500180''
     = Some exampleQuote \<and>
   mapGet (loadPriceCache (\<lambda>j. 120999 + int j)
             (savePriceCache True (\<lambda>i. 1000 + int i) twoPrices None)) ''500209''
     = None \<and>
   mapGet (loadPriceCache (\<lambda>j. 1000 + 120000 - 1)
             (savePriceCache True (\<lambda>i. 1000) twoPrices None)) ''500209''
     = Some (dashQuote \<lparr> currentPrice := Null \<rparr>) \<and>
   mapGet (loadPriceCache (\<lambda>j. 1000 + 120000)
             (savePriceCache True (\<lambda>i. 1000) twoPrices None)) ''500209''
     = None"
proof -
  have d: "distinct (map fst twoPrices)"
    by (simp add: twoPrices_def)
  have l: "0 < length twoPrices" "1 < length twoPrices"
    by (simp_all add: twoPrices_def)
  have n: "twoPrices ! 0 = (''500209'', dashQuote)" "twoPrices ! 1 = (''500180'', exampleQuote)"
    by (simp_all add: twoPrices_def)
  show ?thesis
    using price_ttl [OF d l(2) n(2) l(1) twoPrices_order(1),
        of "\<lambda>j. 120999 + int j" "\<lambda>i. 1000 + int i" None, THEN conjunct2]
      price_ttl [OF d l(1) n(1) l(2) twoPrices_order(2),
        of "\<lambda>j. 120999 + int j" "\<lambda>i. 1000 + int i" None, THEN conjunct2]
      price_ttl [OF d l(1) n(1) l(2) twoPrices_order(2),
        of "\<lambda>j. 1000 + 120000 - 1" "\<lambda>i. 1000" None, THEN conjunct2]
      price_ttl [OF d l(1) n(1) l(2) twoPrices_order(2),
        of "\<lambda>j. 1000 + 120000" "\<lambda>i. 1000" None, THEN conjunct2]
      d twoPrices_order
    by (simp add: PRICE_CACHE_DURATION_MS_def JSON_exampleQuote JSON_dashQuote)
qed

section \<open>Fundamentals store: expiry of the whole document\<close>

lemma loadFundamentalsCache_document:
  "loadFundamentalsCache now (Some (Json doc)) =
     (if timestamp doc \<noteq> 0 \<and> data doc \<noteq> None \<and> now - timestamp doc < CACHE_DURATION_MS
      then Some (case data doc of
                   Some (Pairs items) \<Rightarrow> newMap items
                 | Some (Object entries) \<Rightarrow> newMap (Object_entries entries)
                 | None \<Rightarrow> [])
      else None)"
  by (simp add: loadFundamentalsCache_def loadFundamentalsCache_try_def readFile_def isBlank_def
      JSON_parse_def isCacheValid_def newMap_def
      split: option.splits fundamentalsEntries.splits)

text \<open>Whatever the file holds, the loader returns nothing or all the entries of the document.\<close>

lemma loadFundamentalsCache_all_or_nothing:
  "loadFundamentalsCache now f = None \<or>
   (\<exists>doc entries. f = Some (Json doc) \<and>
      (data doc = Some (Pairs entries) \<and> loadFundamentalsCache now f = Some (newMap entries) \<or>
       data doc = Some (Object entries) \<and>
       loadFundamentalsCache now f = Some (newMap (Object_entries entries))))"
proof (cases f)
  case None
  then show ?thesis
    by (simp add: loadFundamentalsCache_def loadFundamentalsCache_try_def readFile_def)
next
  case (Some c)
  show ?thesis
  proof (cases c)
    case (Text s)
    with Some show ?thesis
      by (simp add: loadFundamentalsCache_def loadFundamentalsCache_try_def readFile_def
          isBlank_def JSON_parse_def)
  next
    case (Json doc)
    show ?thesis
    proof (cases "data doc")
      case None
      with Some Json show ?thesis by (simp add: loadFundamentalsCache_document)
    next
      case (Some es)
      with \<open>f = Some c\<close> Json show ?thesis
        by (cases es) (auto simp: loadFundamentalsCache_document)
    qed
  qed
qed

text \<open>
  C1, as the code has it.  The fundamentals store keeps one write timestamp for the
  whole document, not one per entry: \<open>saveFundamentalsCache\<close> writes the current time
  once, beside the array of all entries, and \<open>loadFundamentalsCache\<close> returns the whole
  mapping when the age of the document is below 24 hours (86400000 ms) and its timestamp
  is not 0, and \<open>null\<close> otherwise.  The mapping is valid or expired as a whole.
\<close>

theorem fundamentals_one_timestamp:
  assumes "distinct (map fst m)"
  shows "CACHE_DURATION_MS = 86400000 \<and>
    saveFundamentalsCache True t m f = Some (Json \<lparr> timestamp = t, data = Some (Pairs m) \<rparr>) \<and>
    loadFundamentalsCache now (saveFundamentalsCache True t m f) =
      (if t \<noteq> 0 \<and> now - t < CACHE_DURATION_MS then Some m else None)"
  using assms
  by (simp add: saveFundamentalsCache_def loadFundamentalsCache_document newMap_distinct
      CACHE_DURATION_MS_def)

theorem fundamentals_one_timestamp_witness:
  "distinct (map fst [(''500180'', exampleRatios ''500180''), (''500209'', exampleRatios ''500209'')]) \<and>
   loadFundamentalsCache (1000 + 86400000 - 1)
     (saveFundamentalsCache True 1000
        [(''500180'', exampleRatios ''500180''), (''500209'', exampleRatios ''500209'')] None)
     = Some [(''500180'', exampleRatios ''500180''), (''500209'', exampleRatios ''500209'')]"
proof -
  have d: "distinct (map fst [(''500180'', exampleRatios ''500180''), (''500209'', exampleRatios ''500209'')])"
    by simp
  show ?thesis
    using fundamentals_one_timestamp [OF d, of 1000 None "1000 + 86400000 - 1",
        THEN conjunct2, THEN conjunct2] d
    by (simp add: CACHE_DURATION_MS_def)
qed

text \<open>
  Two entries are saved at time 1000.  The document written carries the single timestamp
  1000 and the bare entries; read 24 hours later the loader returns \<open>null\<close>, not a mapping
  filtered entry by entry (the price loader returns the empty map there).
\<close>

theorem fundamentals_one_timestamp_counterexample:
  "saveFundamentalsCache True 1000
     [(''500180'', exampleRatios ''500180''), (''500209'', exampleRatios ''500209'')] None
     = Some (Json \<lparr> timestamp = 1000,
                     data = Some (Pairs [(''500180'', exampleRatios ''500180''),
                                         (''500209'', exampleRatios ''500209'')]) \<rparr>) \<and>
   loadFundamentalsCache (1000 + 86400000)
     (saveFundamentalsCache True 1000
        [(''500180'', exampleRatios ''500180''), (''500209'', exampleRatios ''500209'')] None)
     = None \<and>
   loadPriceCache (\<lambda>i. 1000 + 120000)
     (savePriceCache True (\<lambda>i. 1000) [(''500180'', exampleQuote)] None)
     = []"
proof (intro conjI)
  show "saveFundamentalsCache True 1000
     [(''500180'', exampleRatios ''500180''), (''500209'', exampleRatios ''500209'')] None
     = Some (Json \<lparr> timestamp = 1000,
                     data = Some (Pairs [(''500180'', exampleRatios ''500180''),
                                         (''500209'', exampleRatios ''500209'')]) \<rparr>)"
    by (simp add: saveFundamentalsCache_def)
  show "loadFundamentalsCache (1000 + 86400000)
     (saveFundamentalsCache True 1000
        [(''500180'', exampleRatios ''500180''), (''500209'', exampleRatios ''500209'')] None)
     = None"
    by (simp add: saveFundamentalsCache_def loadFundamentalsCache_document CACHE_DURATION_MS_def)
  show "loadPriceCache (\<lambda>i. 1000 + 120000)
     (savePriceCache True (\<lambda>i. 1000) [(''500180'', exampleQuote)] None)
     = []"
    by code_simp
qed

section \<open>Fetchers: batches\<close>

lemma mapCalls_batch:
  "mapCalls (batchPromise fetchOne) xs net =
     (map (\<lambda>sc. Promise sc (Inr (sc, outcome fetchOne sc))) xs, net @ map Request xs)"
  by (induction xs arbitrary: net)
     (auto simp: batchPromise_def callFetcher_def outcome_def split: sum.splits)

lemma settled_batch:
  "settled (map (\<lambda>sc. Promise sc (Inr (sc, g sc))) xs) = Inr (map (\<lambda>sc. (sc, g sc)) xs)"
  by (induction xs) auto

lemma Promise_all_batch:
  "Promise_all (map (\<lambda>sc. Promise sc (Inr (sc, g sc))) xs) net =
     (Inr (map (\<lambda>sc. (sc, g sc)) xs), net @ [Responses xs])"
  by (simp add: Promise_all_def settled_batch requestOf_def comp_def)

lemma storeResults_append:
  "storeResults (a @ b) results = storeResults b (storeResults a results)"
  by (simp add: storeResults_def)

lemma between_Cons: "between d (x # xs) = x # (if xs = [] then [] else d # between d xs)"
  by (cases xs) simp_all

lemma chunks_Nil: "chunks n [] = []"
  by (subst chunks.simps) simp

lemma mapGet_Nil: "mapGet [] k = None"
  by (simp add: mapGet_def)

lemma chunks_eq_Nil: "chunks n xs = [] \<longleftrightarrow> n = 0 \<or> xs = []"
  by (subst chunks.simps) simp

text \<open>One turn of the loop: the batch is sent, awaited and stored, and a pause follows if
  identifiers are left.\<close>

lemma fetchLoop_step:
  assumes "i < length scripcodes"
  shows "fetchLoop fetchOne scripcodes i results net =
     fetchLoop fetchOne scripcodes (i + BATCH_SIZE)
       (storeResults (map (\<lambda>sc. (sc, outcome fetchOne sc)) (take BATCH_SIZE (drop i scripcodes))) results)
       (net @ concurrently (take BATCH_SIZE (drop i scripcodes))
          @ (if i + BATCH_SIZE < length scripcodes then [Delay BATCH_DELAY_MS] else []))"
  by (subst fetchLoop.simps)
     (simp add: assms mapCalls_batch Promise_all_batch concurrently_def delay_def)

lemma fetchLoop_eq:
  "fetchLoop fetchOne scripcodes i results net =
     Inr (storeResults (map (\<lambda>sc. (sc, outcome fetchOne sc)) (drop i scripcodes)) results,
          net @ concat (between [Delay BATCH_DELAY_MS]
                          (map concurrently (chunks BATCH_SIZE (drop i scripcodes)))))"
proof (induction "length scripcodes - i" arbitrary: i results net rule: less_induct)
  case less
  show ?case
  proof (cases "i < length scripcodes")
    case False
    then show ?thesis
      by (subst fetchLoop.simps, subst chunks.simps) (simp add: storeResults_def)
  next
    case True
    let ?batch = "take BATCH_SIZE (drop i scripcodes)"
    let ?rest = "drop (i + BATCH_SIZE) scripcodes"
    have split: "drop i scripcodes = ?batch @ ?rest"
      by (metis add.commute append_take_drop_id drop_drop)
    have ne: "drop i scripcodes \<noteq> []"
      using True by simp
    have ch: "chunks BATCH_SIZE (drop i scripcodes) = ?batch # chunks BATCH_SIZE ?rest"
      using ne by (subst chunks.simps) (simp add: BATCH_SIZE_def add.commute)
    have more: "chunks BATCH_SIZE ?rest = [] \<longleftrightarrow> \<not> i + BATCH_SIZE < length scripcodes"
      by (auto simp: chunks_eq_Nil BATCH_SIZE_def)
    have st: "storeResults (map (\<lambda>sc. (sc, outcome fetchOne sc)) (drop i scripcodes)) results =
              storeResults (map (\<lambda>sc. (sc, outcome fetchOne sc)) ?rest)
                (storeResults (map (\<lambda>sc. (sc, outcome fetchOne sc)) ?batch) results)"
      by (subst split) (simp add: storeResults_append)
    have smaller: "length scripcodes - (i + BATCH_SIZE) < length scripcodes - i"
      using True by (simp add: BATCH_SIZE_def)
    show ?thesis
      unfolding fetchLoop_step [OF True] less [OF smaller] st ch
      by (simp add: between_Cons more chunks_Nil)
  qed
qed

lemma mapGet_storeResults:
  "mapGet (storeResults (map (\<lambda>sc. (sc, g sc)) xs) m) k =
     (if k \<in> set xs then (case g k of None \<Rightarrow> mapGet m k | Some v \<Rightarrow> Some v) else mapGet m k)"
proof (induction xs arbitrary: m)
  case Nil
  then show ?case by (simp add: storeResults_def)
next
  case (Cons x xs)
  have step: "storeResults (map (\<lambda>sc. (sc, g sc)) (x # xs)) m =
     storeResults (map (\<lambda>sc. (sc, g sc)) xs) (case g x of None \<Rightarrow> m | Some v \<Rightarrow> mapSet x v m)"
    by (simp add: storeResults_def)
  show ?case
    unfolding step Cons.IH
    by (auto simp: mapGet_mapSet split: option.splits)
qed

lemma fetchInBatches_eq:
  "fetchInBatches fetchOne scripcodes =
     Inr (storeResults (map (\<lambda>sc. (sc, outcome fetchOne sc)) scripcodes) [], batchTrace scripcodes)"
proof (cases "scripcodes = []")
  case True
  then show ?thesis
    by (simp add: fetchInBatches_def storeResults_def batchTrace_def chunks_Nil)
next
  case False
  then show ?thesis
    by (simp add: fetchInBatches_def fetchLoop_eq batchTrace_def BATCH_SIZE_def BATCH_DELAY_MS_def)
qed

lemma mapGet_fetchInBatches:
  "fetchInBatches fetchOne scripcodes = Inr (results, trace) \<Longrightarrow>
   mapGet results sc = (if sc \<in> set scripcodes then outcome fetchOne sc else None)"
  by (auto simp: fetchInBatches_eq mapGet_storeResults mapGet_Nil split: option.splits)

lemma concat_chunks: "0 < n \<Longrightarrow> concat (chunks n xs) = xs"
proof (induction n xs rule: chunks.induct)
  case (1 n xs)
  then show ?case
    by (subst chunks.simps) auto
qed

lemma chunks_sizes: "b \<in> set (chunks n xs) \<Longrightarrow> b \<noteq> [] \<and> length b \<le> n"
proof (induction n xs rule: chunks.induct)
  case (1 n xs)
  from "1.prems" have ok: "\<not> (n = 0 \<or> xs = [])"
    and b: "b = take n xs \<or> b \<in> set (chunks n (drop n xs))"
    by (subst (asm) chunks.simps; simp split: if_splits)+
  from b show ?case
  proof
    assume "b = take n xs"
    with ok show ?thesis by simp
  next
    assume "b \<in> set (chunks n (drop n xs))"
    with "1.IH" [OF ok] show ?thesis .
  qed
qed

lemma trace_25:
  assumes "length scs = 25"
  shows "batchTrace scs =
    map Request (take 10 scs) @ [Responses (take 10 scs), Delay 1000]
    @ map Request (take 10 (drop 10 scs)) @ [Responses (take 10 (drop 10 scs)), Delay 1000]
    @ map Request (drop 20 scs) @ [Responses (drop 20 scs)]"
proof -
  have a: "scs \<noteq> []" "drop 10 scs \<noteq> []" "drop 20 scs \<noteq> []"
    using assms by auto
  have c3: "chunks 10 (drop 20 scs) = [drop 20 scs]"
    using a(3) by (subst chunks.simps) (simp add: assms chunks_Nil)
  have c2: "chunks 10 (drop 10 scs) = [take 10 (drop 10 scs), drop 20 scs]"
    using a(2) by (subst chunks.simps) (simp add: c3)
  have c1: "chunks 10 scs = [take 10 scs, take 10 (drop 10 scs), drop 20 scs]"
    using a(1) by (subst chunks.simps) (simp add: c2)
  show ?thesis
    by (simp add: batchTrace_def c1 concurrently_def)
qed

text \<open>
  A loop that awaited every request before it sent the next one would leave another
  list of events: the requests of a batch come before the answers to any of them.
\<close>

lemma requests_before_responses:
  assumes "length scs = 25"
  shows "take 11 (batchTrace scs) = map Request (take 10 scs) @ [Responses (take 10 scs)]"
  using assms by (simp add: trace_25)

lemma fetchBSEData_eq:
  "fetchBSEData v sc =
     (case priceAnswer v sc of
        Body d \<Rightarrow> Some (mapBSEResponseToStockData (isoNow v) sc d)
      | _ \<Rightarrow> None)"
  by (simp add: fetchBSEData_def fetchBSEData_try_def split: response.splits)

lemma fetchBSEFundamentals_eq:
  "fetchBSEFundamentals v sc =
     (case fundamentalsAnswer v sc of
        Body d \<Rightarrow> Some (mapBSEFundamentalsResponse sc d)
      | _ \<Rightarrow> None)"
  by (simp add: fetchBSEFundamentals_def fetchBSEFundamentals_try_def split: response.splits)

lemma outcome_Inr: "outcome (\<lambda>sc. Inr (g sc)) sc = g sc"
  by (simp add: outcome_def)

lemma fetchInBatches_results:
  "\<exists>results trace. fetchInBatches fetchOne scripcodes = Inr (results, trace) \<and>
     (\<forall>sc. mapGet results sc = (if sc \<in> set scripcodes then outcome fetchOne sc else None))"
  using mapGet_fetchInBatches [of fetchOne scripcodes] fetchInBatches_eq [of fetchOne scripcodes]
  by blast

text \<open>
  C7.  The batch loop never throws, whatever its fetcher does: it returns a map, and the
  map holds an identifier exactly when the identifier is in the list and its own fetch
  returned a record; a fetch that throws or returns \<open>null\<close> leaves the other identifiers
  as they are.  The two fetchers of the vendor never throw either: a failed request, a
  status outside 2xx and a body that is not JSON all give \<open>null\<close>.  (The answer of the
  vendor for an identifier is taken as fixed during the call.)
\<close>

theorem fetch_many_partial_failure:
  "(\<exists>results trace. fetchInBatches fetchOne scripcodes = Inr (results, trace) \<and>
      (\<forall>sc. mapGet results sc = (if sc \<in> set scripcodes then outcome fetchOne sc else None))) \<and>
   (\<exists>prices trace. fetchMultipleBSEData v scripcodes = Inr (prices, trace) \<and>
      (\<forall>sc. mapGet prices sc = (if sc \<in> set scripcodes then fetchBSEData v sc else None))) \<and>
   (\<exists>ratios trace. fetchMultipleBSEFundamentals v scripcodes = Inr (ratios, trace) \<and>
      (\<forall>sc. mapGet ratios sc =
         (if sc \<in> set scripcodes then fetchBSEFundamentals v sc else None))) \<and>
   fetchBSEData v sc =
     (case priceAnswer v sc of
        Body d \<Rightarrow> Some (mapBSEResponseToStockData (isoNow v) sc d)
      | _ \<Rightarrow> None) \<and>
   fetchBSEFundamentals v sc =
     (case fundamentalsAnswer v sc of
        Body d \<Rightarrow> Some (mapBSEFundamentalsResponse sc d)
      | _ \<Rightarrow> None)"
proof -
  have a: "\<exists>prices trace. fetchMultipleBSEData v scripcodes = Inr (prices, trace) \<and>
      (\<forall>sc. mapGet prices sc = (if sc \<in> set scripcodes then fetchBSEData v sc else None))"
    using fetchInBatches_results [of "\<lambda>sc. Inr (fetchBSEData v sc)" scripcodes]
    unfolding fetchMultipleBSEData_def outcome_Inr .
  have b: "\<exists>ratios trace. fetchMultipleBSEFundamentals v scripcodes = Inr (ratios, trace) \<and>
      (\<forall>sc. mapGet ratios sc =
         (if sc \<in> set scripcodes then fetchBSEFundamentals v sc else None))"
    using fetchInBatches_results [of "\<lambda>sc. Inr (fetchBSEFundamentals v sc)" scripcodes]
    unfolding fetchMultipleBSEFundamentals_def outcome_Inr .
  from a b fetchInBatches_results [of fetchOne scripcodes] show ?thesis
    using fetchBSEData_eq fetchBSEFundamentals_eq by blast
qed

text \<open>One request of a batch is rejected by the network; the other one is in the map.\<close>

theorem fetch_many_partial_failure_witness:
  "\<exists>prices trace. fetchMultipleBSEData exampleVendor [''500180'', ''500209''] = Inr (prices, trace) \<and>
     mapGet prices ''500180'' = Some exampleQuote \<and> mapGet prices ''500209'' = None"
proof -
  have ok: "fetchBSEData exampleVendor ''500180'' = Some exampleQuote"
    by (simp add: fetchBSEData_eq exampleVendor_def exampleQuote_def)
  have ko: "fetchBSEData exampleVendor ''500209'' = None"
    by (simp add: fetchBSEData_eq exampleVendor_def)
  from fetch_many_partial_failure [of "\<lambda>sc. Inr None" "[''500180'', ''500209'']" exampleVendor "''500180''"]
  obtain prices trace where
    r: "fetchMultipleBSEData exampleVendor [''500180'', ''500209''] = Inr (prices, trace)"
    and m: "\<forall>sc. mapGet prices sc =
      (if sc \<in> set [''500180'', ''500209''] then fetchBSEData exampleVendor sc else None)"
    by blast
  from m ok ko have "mapGet prices ''500180'' = Some exampleQuote" "mapGet prices ''500209'' = None"
    by simp_all
  with r show ?thesis by blast
qed

text \<open>
  C8.  The loop cuts the identifiers into consecutive batches of at most 10.  It issues
  a batch concurrently: it sends the requests of all the identifiers of the batch, in
  their order, and only then awaits the answers; the records that came back are stored
  under their identifiers.  It pauses 1000 ms after every batch but the last.  So the
  call returns the records of all the fetches and leaves the list of events
  \<open>batchTrace\<close>; for 25 identifiers that is three batches, of 10, 10 and 5, and two
  pauses between them.
\<close>

theorem batches_and_delays:
  "fetchInBatches fetchOne scripcodes =
     Inr (storeResults (map (\<lambda>sc. (sc, outcome fetchOne sc)) scripcodes) [], batchTrace scripcodes) \<and>
   fetchMultipleBSEData v scripcodes =
     Inr (storeResults (map (\<lambda>sc. (sc, fetchBSEData v sc)) scripcodes) [], batchTrace scripcodes) \<and>
   fetchMultipleBSEFundamentals v scripcodes =
     Inr (storeResults (map (\<lambda>sc. (sc, fetchBSEFundamentals v sc)) scripcodes) [],
          batchTrace scripcodes) \<and>
   concat (chunks 10 scripcodes) = scripcodes \<and>
   (\<forall>b \<in> set (chunks 10 scripcodes). b \<noteq> [] \<and> length b \<le> 10) \<and>
   (length scripcodes = 25 \<longrightarrow>
      batchTrace scripcodes =
        map Request (take 10 scripcodes) @ [Responses (take 10 scripcodes), Delay 1000]
        @ map Request (take 10 (drop 10 scripcodes))
        @ [Responses (take 10 (drop 10 scripcodes)), Delay 1000]
        @ map Request (drop 20 scripcodes) @ [Responses (drop 20 scripcodes)])"
proof -
  have a: "fetchMultipleBSEData v scripcodes =
     Inr (storeResults (map (\<lambda>sc. (sc, fetchBSEData v sc)) scripcodes) [], batchTrace scripcodes)"
    unfolding fetchMultipleBSEData_def fetchInBatches_eq outcome_Inr ..
  have b: "fetchMultipleBSEFundamentals v scripcodes =
     Inr (storeResults (map (\<lambda>sc. (sc, fetchBSEFundamentals v sc)) scripcodes) [],
          batchTrace scripcodes)"
    unfolding fetchMultipleBSEFundamentals_def fetchInBatches_eq outcome_Inr ..
  show ?thesis
    using a b trace_25 [of scripcodes]
    by (simp add: fetchInBatches_eq concat_chunks chunks_sizes)
qed

text \<open>
  Twenty-five identifiers, of which the vendor quotes \<open>500003\<close> only: the call returns
  that one record, after three batches and two pauses.
\<close>

theorem batches_and_delays_witness:
  "length exampleScripcodes = 25 \<and>
   take 10 exampleScripcodes \<in> set (chunks 10 exampleScripcodes) \<and>
   length (take 10 exampleScripcodes) \<le> 10 \<and>
   fetchMultipleBSEData batchVendor exampleScripcodes =
     Inr ([(''500003'', mapBSEResponseToStockData (isoNow batchVendor) ''500003'' (priceResponse ''120''))],
          map Request (take 10 exampleScripcodes) @ [Responses (take 10 exampleScripcodes), Delay 1000]
          @ map Request (take 10 (drop 10 exampleScripcodes))
          @ [Responses (take 10 (drop 10 exampleScripcodes)), Delay 1000]
          @ map Request (drop 20 exampleScripcodes) @ [Responses (drop 20 exampleScripcodes)])"
proof -
  have len: "length exampleScripcodes = 25"
    by (simp add: exampleScripcodes_def)
  have mem: "take 10 exampleScripcodes \<in> set (chunks 10 exampleScripcodes)"
    using len by (subst chunks.simps) auto
  have st: "storeResults (map (\<lambda>sc. (sc, fetchBSEData batchVendor sc)) exampleScripcodes) [] =
      [(''500003'', mapBSEResponseToStockData (isoNow batchVendor) ''500003'' (priceResponse ''120''))]"
    by code_simp
  note t = batches_and_delays [of "\<lambda>sc. Inr None" exampleScripcodes batchVendor]
  have r: "fetchMultipleBSEData batchVendor exampleScripcodes =
     Inr (storeResults (map (\<lambda>sc. (sc, fetchBSEData batchVendor sc)) exampleScripcodes) [],
          batchTrace exampleScripcodes)"
    using t by blast
  have tr: "batchTrace exampleScripcodes =
        map Request (take 10 exampleScripcodes) @ [Responses (take 10 exampleScripcodes), Delay 1000]
        @ map Request (take 10 (drop 10 exampleScripcodes))
        @ [Responses (take 10 (drop 10 exampleScripcodes)), Delay 1000]
        @ map Request (drop 20 exampleScripcodes) @ [Responses (drop 20 exampleScripcodes)]"
    using t len by blast
  have sz: "length (take 10 exampleScripcodes) \<le> 10"
    using t mem by blast
  show ?thesis
    unfolding r st tr [symmetric] using len mem sz by simp
qed

section \<open>Aggregator\<close>

lemma set_uniq: "set (uniq xs) = set xs"
  by (induction xs rule: uniq.induct) auto

lemma distinct_uniq: "distinct (uniq xs)"
  by (induction xs rule: uniq.induct) (auto simp: set_uniq)

lemma resolve_nonempty: "fst (resolveBSEScripcode v c s) \<noteq> Some []"
  by (auto simp: resolveBSEScripcode_def isBSEScripcode_def truthy_def split: option.splits)

lemma resolve_None_iff:
  "fst (resolveBSEScripcode v c s) = None \<longleftrightarrow>
     \<not> isBSEScripcode s \<and> \<not> truthy (mapGet c s) \<and> \<not> truthy (searchResult v s)"
  by (auto simp: resolveBSEScripcode_def truthy_def split: option.splits)

lemma mapGet_collect_fold:
  "mapGet (fold (\<lambda>(s, scripcode) m.
                   case scripcode of None \<Rightarrow> m | Some sc \<Rightarrow> if sc \<noteq> [] then mapSet s sc m else m)
             (map (\<lambda>s. (s, g s)) xs) m0) k =
     (if k \<in> set xs \<and> g k \<noteq> None \<and> g k \<noteq> Some [] then g k else mapGet m0 k)"
proof (induction xs arbitrary: m0)
  case Nil
  then show ?case by simp
next
  case (Cons x xs)
  show ?case
    by (cases "g x") (auto simp: Cons.IH mapGet_mapSet)
qed

lemma mapGet_symbolToScripcodeOf:
  "mapGet (symbolToScripcodeOf env disk holdings) k =
     (if k \<in> symbol ` set holdings
      then fst (resolveBSEScripcode (vendor env) (loadScripcodeCache (scripcodeFile disk)) k)
      else None)"
  using resolve_nonempty [of "vendor env" "loadScripcodeCache (scripcodeFile disk)" k]
  by (auto simp: symbolToScripcodeOf_def resolvePhase_def resolveAll_def Let_def collectResolved_def
      mapGet_collect_fold set_uniq mapGet_Nil)

lemma symbolToScripcodeOf_nonempty:
  "mapGet (symbolToScripcodeOf env disk holdings) k \<noteq> Some []"
  using resolve_nonempty [of "vendor env" "loadScripcodeCache (scripcodeFile disk)" k]
  by (simp add: mapGet_symbolToScripcodeOf)

lemma getFundamentals_total:
  "\<exists>fm ff. getFundamentalsForBSEScripcodes env scripcodes f = Inr (fm, ff)"
  by (simp add: getFundamentalsForBSEScripcodes_def Let_def fetchMultipleBSEFundamentals_def
      fetchInBatches_eq)

lemma pricePhase_total:
  "\<exists>pm pf. pricePhase env priceCache scripcodes f = Inr (pm, pf)"
  by (simp add: pricePhase_def Let_def fetchMultipleBSEData_def fetchInBatches_eq
      split: prod.splits)

lemma getPortfolio_eq:
  "\<exists>disk'. getPortfolioWithRealtimeData env disk holdings =
     Inr (map (updateHolding (symbolToScripcodeOf env disk holdings)
                 (priceDataMapOf env disk holdings) (fundamentalsMapOf env disk holdings)) holdings,
          disk')"
proof -
  obtain fm ff where f:
    "getFundamentalsForBSEScripcodes env (uniq (map snd (fst (resolvePhase env disk holdings))))
       (fundamentalsFile (snd (resolvePhase env disk holdings))) = Inr (fm, ff)"
    using getFundamentals_total by blast
  obtain pm pf where p:
    "pricePhase env (loadPriceCache (priceLoadClock env) (priceFile disk))
       (uniq (map snd (fst (resolvePhase env disk holdings))))
       (priceFile (snd (resolvePhase env disk holdings))) = Inr (pm, pf)"
    using pricePhase_total by blast
  show ?thesis
    by (simp add: getPortfolioWithRealtimeData_def Let_def case_prod_unfold f p
        symbolToScripcodeOf_def uniqueScripcodesOf_def priceDataMapOf_def fundamentalsMapOf_def)
qed

lemma updateHolding_unresolved:
  "mapGet S (symbol h) = None \<Longrightarrow> updateHolding S P F h = h"
  by (simp add: updateHolding_def)

lemma updateHolding_static:
  "symbol (updateHolding S P F h) = symbol h"
  "companyName (updateHolding S P F h) = companyName h"
  "sector (updateHolding S P F h) = sector h"
  "fixed (updateHolding S P F h) = fixed h"
  by (simp_all add: updateHolding_def Let_def split: option.splits)

lemma updateHolding_priced:
  "mapGet S (symbol h) = Some sc \<Longrightarrow> sc \<noteq> [] \<Longrightarrow> mapGet P sc = Some bseData \<Longrightarrow>
   realtime (updateHolding S P F h) = updateRealtime h bseData"
  by (simp add: updateHolding_def Let_def split: option.splits)

lemma updateHolding_no_data:
  "mapGet S (symbol h) = Some sc \<Longrightarrow> mapGet P sc = None \<Longrightarrow> mapGet F sc = None \<Longrightarrow>
   updateHolding S P F h = h"
  by (simp add: updateHolding_def Let_def)

lemma updateRealtime_fields:
  "presentValue (updateRealtime h b) = times (currentPrice b) (qty (fixed h))"
  "gainLoss (updateRealtime h b) = minus (times (currentPrice b) (qty (fixed h))) (investment (fixed h))"
  "gainLossPercent (updateRealtime h b) =
     (if geZero (minus (times (currentPrice b) (qty (fixed h))) (investment (fixed h))) then ''+'' else [])
     @ (if investment (fixed h) > 0
        then toFixed2 (times (divide (minus (times (currentPrice b) (qty (fixed h))) (investment (fixed h)))
                                (investment (fixed h))) 100)
        else ''0.00'')
     @ ''%''"
  "cmp (updateRealtime h b) = currentPrice b"
  "marketCap (updateRealtime h b) = marketCap (realtime h)"
  "priceSource (updateRealtime h b) = Some bse"
  by (simp_all add: updateRealtime_def Let_def)


lemma minus_zero: "x \<noteq> Null \<Longrightarrow> minus x 0 = x"
  by (cases x) simp_all

lemma times_not_Null: "times x b \<noteq> Null"
  by (cases x) simp_all

lemma getHolding_absent:
  "(\<exists>disk'. getHoldingWithRealtimeData env disk holdings symb = Inr (None, disk')) \<longleftrightarrow>
     symb \<notin> symbol ` set holdings"
proof (cases "find (\<lambda>h. symbol h = symb) holdings")
  case None
  then have "symb \<notin> symbol ` set holdings"
    by (auto simp: find_None_iff)
  with None show ?thesis
    by (simp add: getHoldingWithRealtimeData_def)
next
  case (Some h)
  then have "symb \<in> symbol ` set holdings"
    by (auto simp: find_Some_iff)
  moreover have "\<not> (\<exists>disk'. getHoldingWithRealtimeData env disk holdings symb = Inr (None, disk'))"
    using Some
    by (auto simp: getHoldingWithRealtimeData_def Let_def case_prod_unfold
        split: option.splits sum.splits)
  ultimately show ?thesis by simp
qed

lemma getHolding_present:
  assumes "find (\<lambda>h. symbol h = symb) holdings = Some h"
  shows "\<exists>h' disk'. getHoldingWithRealtimeData env disk holdings symb = Inr (Some h', disk') \<and>
     symbol h' = symb \<and>
     (fst (resolveBSEScripcode (vendor env) (loadScripcodeCache (scripcodeFile disk)) symb) = None
        \<longrightarrow> h' = h) \<and>
     (\<forall>sc. fst (resolveBSEScripcode (vendor env) (loadScripcodeCache (scripcodeFile disk)) symb) = Some sc \<and>
           priceFor env disk sc = None \<and> fundamentalsFor env disk sc = None \<longrightarrow> h' = h)"
proof -
  from assms have s: "symbol h = symb"
    by (auto simp: find_Some_iff)
  show ?thesis
    using assms s
    by (auto simp: getHoldingWithRealtimeData_def Let_def case_prod_unfold priceFor_def
        fundamentalsFor_def split: option.splits sum.splits)
qed

lemma distinct_mapSet: "distinct (map fst m) \<Longrightarrow> distinct (map fst (mapSet k v m))"
  by (simp add: mapSet_def distinct_update)

lemma distinct_storeResults:
  "distinct (map fst m) \<Longrightarrow> distinct (map fst (storeResults rs m))"
proof (induction rs arbitrary: m)
  case Nil
  then show ?case by (simp add: storeResults_def)
next
  case (Cons r rs)
  obtain k d where r: "r = (k, d)" by (cases r)
  have step: "storeResults (r # rs) m = storeResults rs (case d of None \<Rightarrow> m | Some v \<Rightarrow> mapSet k v m)"
    by (simp add: storeResults_def r)
  show ?case
    unfolding step using Cons.prems
    by (intro Cons.IH) (simp add: distinct_mapSet split: option.splits)
qed

lemma map_of_rev_distinct: "distinct (map fst xs) \<Longrightarrow> map_of (rev xs) = map_of xs"
proof (induction xs)
  case Nil
  then show ?case by simp
next
  case (Cons x xs)
  obtain k v where x: "x = (k, v)" by (cases x)
  from Cons.prems x have "map_of xs k = None"
    by (simp add: map_of_eq_None_iff)
  with Cons x show ?case
    by (auto simp: map_add_def fun_eq_iff split: option.splits)
qed

lemma mapGet_setAll_distinct:
  assumes "distinct (map fst es)"
  shows "mapGet (setAll es m) k = (case mapGet es k of None \<Rightarrow> mapGet m k | Some v \<Rightarrow> Some v)"
proof -
  have "map_of (rev es) k = mapGet es k"
    using assms by (simp add: map_of_rev_distinct mapGet_def)
  then show ?thesis
    by (simp add: mapGet_setAll)
qed

lemma splitCached_fold:
  "fold (\<lambda>sc (priceDataMap, scripcodesToFetch).
             case mapGet priceCache sc of
               Some cachedPrice \<Rightarrow> (mapSet sc cachedPrice priceDataMap, scripcodesToFetch)
             | None \<Rightarrow> (priceDataMap, scripcodesToFetch @ [sc]))
       scs (pm, tf) = (pm', tf') \<Longrightarrow>
   tf' = tf @ filter (\<lambda>sc. mapGet priceCache sc = None) scs \<and>
   (\<forall>k. mapGet pm' k = (if k \<in> set scs \<and> mapGet priceCache k \<noteq> None then mapGet priceCache k
                         else mapGet pm k))"
proof (induction scs arbitrary: pm tf)
  case Nil
  then show ?case by simp
next
  case (Cons sc scs)
  show ?case
  proof (cases "mapGet priceCache sc")
    case None
    with Cons.prems Cons.IH [of pm "tf @ [sc]"] show ?thesis
      by auto
  next
    case (Some d)
    with Cons.prems Cons.IH [of "mapSet sc d pm" tf] show ?thesis
      by (auto simp: mapGet_mapSet)
  qed
qed

lemma splitCached_eq:
  "splitCached priceCache scs = (pm, tf) \<Longrightarrow>
   tf = filter (\<lambda>sc. mapGet priceCache sc = None) scs \<and>
   (\<forall>k. mapGet pm k = (if k \<in> set scs then mapGet priceCache k else None))"
  using splitCached_fold [of priceCache scs "[]" "[]" pm tf]
  by (auto simp: splitCached_def mapGet_Nil)

lemma mapGet_pricePhase:
  assumes "pricePhase env priceCache scs f = Inr (pm, pf)"
  shows "mapGet pm k =
    (if k \<in> set scs
     then (case mapGet priceCache k of Some d \<Rightarrow> Some d | None \<Rightarrow> fetchBSEData (vendor env) k)
     else None)"
proof -
  obtain pm0 tf where sp: "splitCached priceCache scs = (pm0, tf)"
    by (cases "splitCached priceCache scs")
  note s = splitCached_eq [OF sp]
  show ?thesis
  proof (cases "tf = []")
    case True
    with assms sp have "pm = pm0"
      by (simp add: pricePhase_def)
    moreover from True s have "\<forall>sc \<in> set scs. mapGet priceCache sc \<noteq> None"
      by (auto simp: filter_empty_conv)
    ultimately show ?thesis
      using s by (auto split: option.splits)
  next
    case False
    let ?fetched = "storeResults (map (\<lambda>sc. (sc, outcome (\<lambda>sc. Inr (fetchBSEData (vendor env) sc)) sc)) tf) []"
    from False assms sp have pm: "pm = setAll ?fetched pm0"
      by (simp add: pricePhase_def fetchMultipleBSEData_def fetchInBatches_eq)
    have d: "distinct (map fst ?fetched)"
      by (rule distinct_storeResults) simp
    have g: "mapGet ?fetched k = (if k \<in> set tf then fetchBSEData (vendor env) k else None)"
      by (simp add: mapGet_storeResults outcome_Inr mapGet_Nil split: option.splits)
    show ?thesis
      unfolding pm mapGet_setAll_distinct [OF d] g
      using s by (auto split: option.splits)
  qed
qed

lemma mapGet_priceDataMapOf:
  "mapGet (priceDataMapOf env disk holdings) sc =
     (if sc \<in> set (uniqueScripcodesOf env disk holdings) then priceFor env disk sc else None)"
proof -
  obtain pm pf where p:
    "pricePhase env (loadPriceCache (priceLoadClock env) (priceFile disk))
       (uniqueScripcodesOf env disk holdings)
       (priceFile (snd (resolvePhase env disk holdings))) = Inr (pm, pf)"
    using pricePhase_total by blast
  show ?thesis
    using mapGet_pricePhase [OF p, of sc]
    by (simp add: priceDataMapOf_def p priceFor_def)
qed

lemma resolved_in_uniqueScripcodes:
  "mapGet (symbolToScripcodeOf env disk holdings) s = Some sc \<Longrightarrow>
   sc \<in> set (uniqueScripcodesOf env disk holdings)"
  by (auto simp: uniqueScripcodesOf_def set_uniq mapGet_def dest!: map_of_SomeD intro: rev_image_eqI)

lemma resolved_price:
  assumes "h \<in> set holdings"
    and "fst (resolveBSEScripcode (vendor env) (loadScripcodeCache (scripcodeFile disk)) (symbol h)) = Some sc"
  shows "mapGet (symbolToScripcodeOf env disk holdings) (symbol h) = Some sc"
    and "mapGet (priceDataMapOf env disk holdings) sc = priceFor env disk sc"
proof -
  show a: "mapGet (symbolToScripcodeOf env disk holdings) (symbol h) = Some sc"
    using assms by (simp add: mapGet_symbolToScripcodeOf)
  show "mapGet (priceDataMapOf env disk holdings) sc = priceFor env disk sc"
    using resolved_in_uniqueScripcodes [OF a] by (simp add: mapGet_priceDataMapOf)
qed

lemma digitValue_digitChar: "d < 10 \<Longrightarrow> digitValue (digitChar d) = d"
  by (simp add: digitValue_def digitChar_def)

lemma digitsValue_snoc: "digitsValue (ds @ [c]) = 10 * digitsValue ds + digitValue c"
  by (simp add: digitsValue_def)

lemma digitsValue_showNat: "digitsValue (showNat n) = n"
proof (induction n rule: showNat.induct)
  case (1 n)
  show ?case
  proof (cases "n < 10")
    case True
    then show ?thesis
      by (subst showNat.simps) (simp add: digitsValue_def digitValue_digitChar)
  next
    case False
    with "1.IH" show ?thesis
      by (subst showNat.simps) (simp add: digitsValue_snoc digitValue_digitChar)
  qed
qed

lemma hundredths_nearest: "\<bar>of_nat (hundredths r) / 100 - \<bar>r\<bar>\<bar> \<le> 1 / 200"
proof -
  let ?x = "\<bar>r\<bar> * 100 + 1 / 2"
  have nonneg: "0 \<le> \<lfloor>?x\<rfloor>"
    by (simp add: zero_le_floor)
  then have n: "(of_nat (hundredths r) :: rat) = of_int \<lfloor>?x\<rfloor>"
    by (simp add: hundredths_def)
  define k :: rat where "k = of_int \<lfloor>?x\<rfloor>"
  define a :: rat where "a = \<bar>r\<bar>"
  have "k \<le> a * 100 + 1 / 2" "a * 100 + 1 / 2 < k + 1"
    unfolding k_def a_def by linarith+
  then have "\<bar>k / 100 - a\<bar> \<le> 1 / 200"
    by linarith
  then show ?thesis
    unfolding n k_def a_def .
qed

lemma toFixed2_finite:
  "toFixed2 (Num r) =
     (if r < 0 then ''-'' else []) @ showNat (hundredths r div 100) @ ''.''
       @ [digitChar (hundredths r mod 100 div 10), digitChar (hundredths r mod 10)]"
  by (simp add: toFixed2_def)

lemma getPortfolio_nth:
  assumes "i < length holdings"
  shows "\<exists>out disk'. getPortfolioWithRealtimeData env disk holdings = Inr (out, disk') \<and>
     length out = length holdings \<and>
     out ! i = updateHolding (symbolToScripcodeOf env disk holdings)
                 (priceDataMapOf env disk holdings) (fundamentalsMapOf env disk holdings) (holdings ! i)"
  using getPortfolio_eq [of env disk holdings] assms by auto

text \<open>
  C9.  \<open>getPortfolioWithRealtimeData\<close> returns one record for every static holding, in
  the order of the static list: the record at position \<open>i\<close> has the symbol, the name, the
  sector and the fixed block of the holding at position \<open>i\<close>.  Where the symbol of a
  holding does not resolve (\<open>resolveBSEScripcode\<close> returns \<open>null\<close>: the symbol is not
  numeric, not in the scripcode cache, and not found by the search), the record is the
  static holding, unchanged.
\<close>

theorem unresolved_holdings_unchanged:
  "\<exists>out disk'. getPortfolioWithRealtimeData env disk holdings = Inr (out, disk') \<and>
     length out = length holdings \<and>
     (\<forall>i<length holdings.
        symbol (out ! i) = symbol (holdings ! i) \<and>
        companyName (out ! i) = companyName (holdings ! i) \<and>
        sector (out ! i) = sector (holdings ! i) \<and>
        fixed (out ! i) = fixed (holdings ! i) \<and>
        (fst (resolveBSEScripcode (vendor env) (loadScripcodeCache (scripcodeFile disk))
               (symbol (holdings ! i))) = None
           \<longrightarrow> out ! i = holdings ! i))"
proof -
  obtain disk' where r: "getPortfolioWithRealtimeData env disk holdings =
     Inr (map (updateHolding (symbolToScripcodeOf env disk holdings)
                 (priceDataMapOf env disk holdings) (fundamentalsMapOf env disk holdings)) holdings,
          disk')"
    using getPortfolio_eq by blast
  show ?thesis
    unfolding r
    by (auto simp: updateHolding_static updateHolding_unresolved mapGet_symbolToScripcodeOf)
qed

text \<open>The second holding of the list has a symbol the vendor does not know.\<close>

theorem unresolved_holdings_unchanged_witness:
  "fst (resolveBSEScripcode (vendor exampleEnv) (loadScripcodeCache (scripcodeFile emptyDisk))
          (symbol ([exampleHolding, unknownHolding] ! 1))) = None \<and>
   (\<exists>out disk'. getPortfolioWithRealtimeData exampleEnv emptyDisk [exampleHolding, unknownHolding]
        = Inr (out, disk') \<and>
      length out = 2 \<and> out ! 1 = unknownHolding \<and> symbol (out ! 0) = ''HDFCBANK'')"
proof -
  have u: "fst (resolveBSEScripcode (vendor exampleEnv) (loadScripcodeCache (scripcodeFile emptyDisk))
          (symbol ([exampleHolding, unknownHolding] ! 1))) = None"
    by code_simp
  from unresolved_holdings_unchanged [of exampleEnv emptyDisk "[exampleHolding, unknownHolding]"]
  obtain out disk' where
    r: "getPortfolioWithRealtimeData exampleEnv emptyDisk [exampleHolding, unknownHolding] = Inr (out, disk')"
    and l: "length out = length [exampleHolding, unknownHolding]"
    and a: "\<forall>i<length [exampleHolding, unknownHolding].
        symbol (out ! i) = symbol ([exampleHolding, unknownHolding] ! i) \<and>
        companyName (out ! i) = companyName ([exampleHolding, unknownHolding] ! i) \<and>
        sector (out ! i) = sector ([exampleHolding, unknownHolding] ! i) \<and>
        fixed (out ! i) = fixed ([exampleHolding, unknownHolding] ! i) \<and>
        (fst (resolveBSEScripcode (vendor exampleEnv) (loadScripcodeCache (scripcodeFile emptyDisk))
               (symbol ([exampleHolding, unknownHolding] ! i))) = None
           \<longrightarrow> out ! i = [exampleHolding, unknownHolding] ! i)"
    by blast
  from a [rule_format, of 1] u have "out ! 1 = unknownHolding"
    by simp
  moreover from a [rule_format, of 0] have "symbol (out ! 0) = ''HDFCBANK''"
    by (simp add: exampleHolding_def)
  ultimately show ?thesis
    using r l u by auto
qed



lemma example_priced: "priceFor exampleEnv emptyDisk ''500180'' = Some exampleQuote"
  by code_simp



text \<open>
  C3, as the code has it.  For a holding whose symbol resolves to a scripcode for which a
  price is there and whose investment is 0, the recomputed gain equals the present value,
  and \<open>gainLossPercent\<close> is \<open>+0.00%\<close> when that gain is not negative (the sign is put before
  the text \<open>0.00\<close> as before any other) and \<open>0.00%\<close> otherwise.
\<close>

theorem zero_investment_percent:
  assumes "i < length holdings"
    and "fst (resolveBSEScripcode (vendor env) (loadScripcodeCache (scripcodeFile disk))
               (symbol (holdings ! i))) = Some sc"
    and "priceFor env disk sc = Some bseData"
    and "investment (fixed (holdings ! i)) = 0"
  shows "\<exists>out disk'. getPortfolioWithRealtimeData env disk holdings = Inr (out, disk') \<and>
     gainLoss (realtime (out ! i)) = presentValue (realtime (out ! i)) \<and>
     gainLossPercent (realtime (out ! i)) =
       (if geZero (gainLoss (realtime (out ! i))) then ''+0.00%'' else ''0.00%'')"
proof -
  from getPortfolio_nth [OF assms(1), of env disk] obtain out disk' where
    r: "getPortfolioWithRealtimeData env disk holdings = Inr (out, disk')"
    and n: "out ! i = updateHolding (symbolToScripcodeOf env disk holdings)
                 (priceDataMapOf env disk holdings) (fundamentalsMapOf env disk holdings) (holdings ! i)"
    by blast
  have mem: "holdings ! i \<in> set holdings"
    using assms(1) by simp
  note rp = resolved_price [OF mem assms(2)]
  have ne: "sc \<noteq> []"
    using symbolToScripcodeOf_nonempty [of env disk holdings "symbol (holdings ! i)"] rp(1) by auto
  have rt: "realtime (out ! i) = updateRealtime (holdings ! i) bseData"
    unfolding n by (rule updateHolding_priced [OF rp(1) ne]) (simp add: rp(2) assms(3))
  show ?thesis
    using r assms(4)
    by (auto simp: rt updateRealtime_fields minus_zero times_not_Null)
qed

lemma zero_resolved:
  "fst (resolveBSEScripcode (vendor exampleEnv) (loadScripcodeCache (scripcodeFile emptyDisk))
          (symbol ([zeroInvestmentHolding] ! 0))) = Some ''500180''"
  by code_simp

lemma zero_run:
  "(case getPortfolioWithRealtimeData exampleEnv emptyDisk [zeroInvestmentHolding] of
      Inl e \<Rightarrow> []
    | Inr (out, disk') \<Rightarrow> map (\<lambda>h. gainLoss (realtime h)) out) = [Num 1200]"
  by code_simp

theorem zero_investment_percent_witness:
  "0 < length [zeroInvestmentHolding] \<and>
   fst (resolveBSEScripcode (vendor exampleEnv) (loadScripcodeCache (scripcodeFile emptyDisk))
          (symbol ([zeroInvestmentHolding] ! 0))) = Some ''500180'' \<and>
   priceFor exampleEnv emptyDisk ''500180'' = Some exampleQuote \<and>
   investment (fixed ([zeroInvestmentHolding] ! 0)) = 0 \<and>
   (\<exists>out disk'. getPortfolioWithRealtimeData exampleEnv emptyDisk [zeroInvestmentHolding]
        = Inr (out, disk') \<and>
      gainLoss (realtime (out ! 0)) = Num 1200 \<and>
      gainLossPercent (realtime (out ! 0)) = ''+0.00%'')"
proof -
  have l: "0 < length [zeroInvestmentHolding]"
    by simp
  have i: "investment (fixed ([zeroInvestmentHolding] ! 0)) = 0"
    by (simp add: zeroInvestmentHolding_def exampleHolding_def)
  from zero_investment_percent [OF l zero_resolved example_priced i] obtain out disk' where
    r: "getPortfolioWithRealtimeData exampleEnv emptyDisk [zeroInvestmentHolding] = Inr (out, disk')"
    and p: "gainLossPercent (realtime (out ! 0)) =
       (if geZero (gainLoss (realtime (out ! 0))) then ''+0.00%'' else ''0.00%'')"
    by blast
  from zero_run r have "gainLoss (realtime (out ! 0)) = Num 1200"
    by (cases out) auto
  with r p l zero_resolved example_priced i show ?thesis
    by auto
qed

text \<open>
  Nothing invested, a price of 120 for 10 shares: the text is \<open>+0.00%\<close>, not \<open>0.00%\<close>.
\<close>

theorem zero_investment_percent_counterexample:
  "(case getPortfolioWithRealtimeData exampleEnv emptyDisk [zeroInvestmentHolding] of
      Inl e \<Rightarrow> []
    | Inr (out, disk') \<Rightarrow> map (\<lambda>h. (investment (fixed h), gainLossPercent (realtime h))) out)
   = [(0, ''+0.00%'')]"
  by code_simp

text \<open>The fundamentals for one scripcode: the cached ones, else the fetched ones.\<close>

lemma fundamentalsFor_eq:
  "fundamentalsFor env disk sc =
     (case (case loadFundamentalsCache (fundamentalsLoadNow env) (fundamentalsFile disk) of
              None \<Rightarrow> None
            | Some m \<Rightarrow> mapGet (newMap m) sc) of
        Some d \<Rightarrow> Some d
      | None \<Rightarrow> fetchBSEFundamentals (vendor env) sc)"
proof -
  let ?result = "case loadFundamentalsCache (fundamentalsLoadNow env) (fundamentalsFile disk) of
                   None \<Rightarrow> [] | Some m \<Rightarrow> newMap m"
  have c: "(case loadFundamentalsCache (fundamentalsLoadNow env) (fundamentalsFile disk) of
              None \<Rightarrow> None
            | Some m \<Rightarrow> mapGet (newMap m) sc) = mapGet ?result sc"
    by (simp add: mapGet_Nil split: option.splits)
  show ?thesis
    unfolding c
    by (cases "mapGet ?result sc"; cases "fetchBSEFundamentals (vendor env) sc")
       (simp_all add: fundamentalsFor_def getFundamentalsForBSEScripcodes_def Let_def mapHas_mapGet
         fetchMultipleBSEFundamentals_def fetchInBatches_eq outcome_Inr storeResults_def setAll_def
         mapGet_mapSet mapSet_fresh)
qed

text \<open>
  C10.  \<open>getHoldingWithRealtimeData\<close> returns \<open>null\<close> exactly when no static holding has
  the symbol.  Otherwise it returns a record, never \<open>null\<close> and never an error, for the
  first holding with the symbol; the record is that static holding itself when the symbol
  does not resolve, and when it resolves but there is neither a price (cached or fetched)
  nor fundamentals (cached or fetched) for the scripcode.
\<close>

theorem single_holding_lookup:
  "((\<exists>disk'. getHoldingWithRealtimeData env disk holdings symb = Inr (None, disk')) \<longleftrightarrow>
      symb \<notin> symbol ` set holdings) \<and>
   (\<forall>h. find (\<lambda>h. symbol h = symb) holdings = Some h \<longrightarrow>
      (\<exists>h' disk'. getHoldingWithRealtimeData env disk holdings symb = Inr (Some h', disk') \<and>
         symbol h' = symb \<and>
         (fst (resolveBSEScripcode (vendor env) (loadScripcodeCache (scripcodeFile disk)) symb) = None
            \<longrightarrow> h' = h) \<and>
         (\<forall>sc. fst (resolveBSEScripcode (vendor env) (loadScripcodeCache (scripcodeFile disk)) symb)
                 = Some sc \<and>
               priceFor env disk sc = None \<and> fundamentalsFor env disk sc = None \<longrightarrow> h' = h))) \<and>
   (symb \<in> symbol ` set holdings \<longrightarrow> (\<exists>h. find (\<lambda>h. symbol h = symb) holdings = Some h))"
proof -
  have "symb \<in> symbol ` set holdings \<Longrightarrow> \<exists>h. find (\<lambda>h. symbol h = symb) holdings = Some h"
    by (cases "find (\<lambda>h. symbol h = symb) holdings") (auto simp: find_None_iff)
  then show ?thesis
    using getHolding_absent [of env disk holdings symb] getHolding_present [of symb holdings _ env disk]
    by blast
qed

lemma unknown_found: "find (\<lambda>h. symbol h = ''UNKNOWN'') [exampleHolding, unknownHolding] = Some unknownHolding"
  by code_simp

lemma unknown_unresolved:
  "fst (resolveBSEScripcode (vendor exampleEnv) (loadScripcodeCache (scripcodeFile emptyDisk)) ''UNKNOWN'')
     = None"
  by code_simp

lemma missing_absent: "''MISSING'' \<notin> symbol ` set [exampleHolding, unknownHolding]"
  by code_simp

theorem single_holding_lookup_witness:
  "''MISSING'' \<notin> symbol ` set [exampleHolding, unknownHolding] \<and>
   (\<exists>disk'. getHoldingWithRealtimeData exampleEnv emptyDisk [exampleHolding, unknownHolding] ''MISSING''
        = Inr (None, disk')) \<and>
   find (\<lambda>h. symbol h = ''UNKNOWN'') [exampleHolding, unknownHolding] = Some unknownHolding \<and>
   fst (resolveBSEScripcode (vendor exampleEnv) (loadScripcodeCache (scripcodeFile emptyDisk)) ''UNKNOWN'')
     = None \<and>
   (\<exists>disk'. getHoldingWithRealtimeData exampleEnv emptyDisk [exampleHolding, unknownHolding] ''UNKNOWN''
        = Inr (Some unknownHolding, disk'))"
proof -
  from single_holding_lookup [of exampleEnv emptyDisk "[exampleHolding, unknownHolding]" "''MISSING''"]
    missing_absent
  have a: "\<exists>disk'. getHoldingWithRealtimeData exampleEnv emptyDisk [exampleHolding, unknownHolding]
       ''MISSING'' = Inr (None, disk')"
    by blast
  from single_holding_lookup [of exampleEnv emptyDisk "[exampleHolding, unknownHolding]" "''UNKNOWN''"]
    unknown_found unknown_unresolved
  have b: "\<exists>disk'. getHoldingWithRealtimeData exampleEnv emptyDisk [exampleHolding, unknownHolding]
       ''UNKNOWN'' = Inr (Some unknownHolding, disk')"
    by blast
  from a b missing_absent unknown_found unknown_unresolved show ?thesis
    by blast
qed

end
